theory Spec2Isabelle
  imports Main
begin

section \<open>gitDataSync.js: data model\<close>

text \<open>
  The module keeps the local file \<^verbatim>\<open>./data/app.db\<close> in step with the file
  \<^verbatim>\<open>data/app.db\<close> of a GitHub repository. Buffers are byte strings. The base-64 text
  of a buffer is kept symbolic: \<^verbatim>\<open>buf.toString('base64')\<close> is \<open>Base64 buf\<close> and
  \<^verbatim>\<open>Buffer.from(text, 'base64')\<close> takes the buffer out again.
\<close>

type_synonym buffer = string
type_synonym sha = string

datatype base64 = Base64 buffer

text \<open>
  A rejected request is a JavaScript error object: \<^verbatim>\<open>e.status\<close> (absent on a plain
  \<^verbatim>\<open>Error\<close>) and \<^verbatim>\<open>e.message\<close>. The field \<open>config\<close> marks the errors
  made by \<^verbatim>\<open>configError\<close>.
\<close>

record err =
  status :: "nat option"
  message :: string
  config :: bool

definition Error :: "string \<Rightarrow> err" where
  "Error m = \<lparr>status = None, message = m, config = False\<rparr>"

text \<open>
  Modelled from the spec: \<^verbatim>\<open>configError\<close> lives in \<^verbatim>\<open>./githubClient\<close>, which is not
  part of the sources at hand. The spec calls its result a configuration error, distinct
  from transient failures.
\<close>

definition configError :: "string \<Rightarrow> err" where
  "configError m = \<lparr>status = None, message = m, config = True\<rparr>"

text \<open>What the store answers.\<close>

datatype content_data = Directory | File "sha option"

datatype body = BodyBuffer buffer | BodyString string | BodyObject base64 string | BodyOther

record params =
  p_message :: string
  p_content :: base64
  p_sha :: "sha option"

text \<open>The requests the module sends; owner, repository, path and branch are constants.\<close>

datatype call =
    GetContent
  | GetBlob sha
  | CreateOrUpdateFileContents params
  | CreateBlob base64
  | GetRef
  | GetCommit sha
  | CreateTree sha sha
  | CreateCommit string sha sha
  | UpdateRef sha

text \<open>
  The module variables \<^verbatim>\<open>lastKnownSha\<close>, \<^verbatim>\<open>dirty\<close> and \<^verbatim>\<open>timer\<close>, the local
  file (\<open>None\<close> when it does not exist), and the outside world: for each endpoint the
  answers the store is going to give, in order, and the log of the requests sent so far,
  each with whether it was fulfilled. The six git-database requests of
  \<^verbatim>\<open>commitRawBlob\<close> run in a fixed order and each answers with one object id, so
  they share one sequence of answers. \<open>timeouts\<close> is the number of callbacks that
  \<^verbatim>\<open>setTimeout\<close> has registered and that have not run yet; \<open>intervalOn\<close> and \<open>shutdownHooked\<close> record that
  \<^verbatim>\<open>initDataSync\<close> has installed the periodic flush and the signal handlers.
\<close>

record state =
  lastKnownSha :: "sha option"
  dirty :: bool
  timer :: bool
  localFile :: "buffer option"
  getContent_replies :: "nat \<Rightarrow> err + content_data"
  getBlob_replies :: "nat \<Rightarrow> err + body"
  put_replies :: "nat \<Rightarrow> err + sha option"
  git_replies :: "nat \<Rightarrow> err + sha"
  calls :: "(call \<times> bool) list"
  timeouts :: nat
  intervalOn :: bool
  shutdownHooked :: bool

type_synonym 'a io = "state \<Rightarrow> (err + 'a) \<times> state"

definition DEBOUNCE_MS :: nat where
  "DEBOUNCE_MS = 3000"

definition SIZE_WARN_LIMIT :: nat where
  "SIZE_WARN_LIMIT = 90 * 1024 * 1024"

section \<open>JavaScript idioms\<close>

text \<open>\<^verbatim>\<open>await m\<close> followed by the rest of the function: a rejection leaves the function.\<close>

definition await :: "'a io \<Rightarrow> ('a \<Rightarrow> 'b io) \<Rightarrow> 'b io" where
  "await m f s = (case m s of (Inl e, s') \<Rightarrow> (Inl e, s') | (Inr x, s') \<Rightarrow> f x s')"

definition try_catch :: "'a io \<Rightarrow> (err \<Rightarrow> 'a io) \<Rightarrow> 'a io" where
  "try_catch m h s = (case m s of (Inl e, s') \<Rightarrow> h e s' | (Inr x, s') \<Rightarrow> (Inr x, s'))"

definition return :: "'a \<Rightarrow> 'a io" where
  "return x s = (Inr x, s)"

definition throw :: "err \<Rightarrow> 'a io" where
  "throw e s = (Inl e, s)"

text \<open>\<^verbatim>\<open>x || null\<close> on an optional string: the empty string is falsy too.\<close>

definition or_null :: "string option \<Rightarrow> string option" where
  "or_null x = (case x of None \<Rightarrow> None | Some t \<Rightarrow> if t = [] then None else Some t)"

definition truthy :: "string option \<Rightarrow> bool" where
  "truthy x = (or_null x \<noteq> None)"

text \<open>\<^verbatim>\<open>s.includes(sub)\<close>.\<close>

fun js_includes :: "string \<Rightarrow> string \<Rightarrow> bool" where
  "js_includes [] sub = (sub = [])"
| "js_includes (c # cs) sub = (take (length sub) (c # cs) = sub \<or> js_includes cs sub)"

text \<open>The text \<^verbatim>\<open>"sha" wasn't supplied\<close>.\<close>

definition sha_wasnt_supplied :: string where
  "sha_wasnt_supplied = CHR 0x22 # ''sha'' @ CHR 0x22 # '' wasn'' @ CHR 0x27 # ''t supplied''"

text \<open>
  \<^verbatim>\<open>e.status === 422 && e.message && e.message.includes(`"sha" wasn't supplied`)\<close>
\<close>

definition is_sha_missing :: "err \<Rightarrow> bool" where
  "is_sha_missing e =
     (status e = Some 422 \<and> message e \<noteq> [] \<and> js_includes (message e) sha_wasnt_supplied)"

section \<open>The store's client\<close>

definition fulfilled :: "err + 'a \<Rightarrow> bool" where
  "fulfilled r = (case r of Inl _ \<Rightarrow> False | Inr _ \<Rightarrow> True)"

definition octokit_getContent :: "content_data io" where
  "octokit_getContent s =
     (let r = getContent_replies s 0
      in (r, s\<lparr>getContent_replies := (\<lambda>n. getContent_replies s (Suc n)),
               calls := calls s @ [(GetContent, fulfilled r)]\<rparr>))"

definition octokit_getBlob :: "sha \<Rightarrow> body io" where
  "octokit_getBlob file_sha s =
     (let r = getBlob_replies s 0
      in (r, s\<lparr>getBlob_replies := (\<lambda>n. getBlob_replies s (Suc n)),
               calls := calls s @ [(GetBlob file_sha, fulfilled r)]\<rparr>))"

definition octokit_createOrUpdateFileContents :: "params \<Rightarrow> (sha option) io" where
  "octokit_createOrUpdateFileContents p s =
     (let r = put_replies s 0
      in (r, s\<lparr>put_replies := (\<lambda>n. put_replies s (Suc n)),
               calls := calls s @ [(CreateOrUpdateFileContents p, fulfilled r)]\<rparr>))"

definition octokit_git :: "call \<Rightarrow> sha io" where
  "octokit_git c s =
     (let r = git_replies s 0
      in (r, s\<lparr>git_replies := (\<lambda>n. git_replies s (Suc n)),
               calls := calls s @ [(c, fulfilled r)]\<rparr>))"

section \<open>The module's functions\<close>

definition getRemoteSha :: "(sha option) io" where
  "getRemoteSha =
     try_catch
       (await octokit_getContent (\<lambda>data.
          case data of
            Directory \<Rightarrow> throw (Error ''Expected file, found directory at data/app.db'')
          | File sha \<Rightarrow> return (or_null sha)))
       (\<lambda>e. if status e = Some 404 then return None else throw e)"

definition fetchRemoteDbBuffer :: "((buffer \<times> sha) option) io" where
  "fetchRemoteDbBuffer =
     await getRemoteSha (\<lambda>sha.
       case sha of
         None \<Rightarrow> return None
       | Some sha \<Rightarrow>
           await (octokit_getBlob sha) (\<lambda>body.
             case body of
               BodyBuffer b \<Rightarrow> return (Some (b, sha))
             | BodyString str \<Rightarrow> return (Some (str, sha))
             | BodyObject (Base64 b) encoding \<Rightarrow>
                 if b \<noteq> [] \<and> encoding = ''base64'' then return (Some (b, sha))
                 else throw (Error ''Unable to fetch DB blob content'')
             | BodyOther \<Rightarrow> throw (Error ''Unable to fetch DB blob content'')))"

definition putFileContents :: "base64 \<Rightarrow> string \<Rightarrow> sha option \<Rightarrow> (sha option) io" where
  "putFileContents contentBase64 msg sha =
     (let params = \<lparr>p_message = msg, p_content = contentBase64,
                     p_sha = (if truthy sha then sha else None)\<rparr>
      in try_catch (octokit_createOrUpdateFileContents params)
           (\<lambda>e. if is_sha_missing e
                 then await getRemoteSha (\<lambda>remoteSha.
                        if truthy remoteSha
                        then octokit_createOrUpdateFileContents (params\<lparr>p_sha := remoteSha\<rparr>)
                        else throw e)
                 else throw e))"

definition commitRawBlob :: "buffer \<Rightarrow> string \<Rightarrow> (sha \<times> sha) io" where
  "commitRawBlob buf msg =
     await (octokit_git (CreateBlob (Base64 buf))) (\<lambda>blobSha.
     await (octokit_git GetRef) (\<lambda>baseCommitSha.
     await (octokit_git (GetCommit baseCommitSha)) (\<lambda>baseTreeSha.
     await (octokit_git (CreateTree baseTreeSha blobSha)) (\<lambda>treeSha.
     await (octokit_git (CreateCommit msg treeSha baseCommitSha)) (\<lambda>commitSha.
     await (octokit_git (UpdateRef commitSha)) (\<lambda>_.
     return (commitSha, blobSha)))))))"

definition set_lastKnownSha :: "sha option \<Rightarrow> unit io" where
  "set_lastKnownSha v s = (Inr (), s\<lparr>lastKnownSha := v\<rparr>)"

definition set_dirty :: "bool \<Rightarrow> unit io" where
  "set_dirty v s = (Inr (), s\<lparr>dirty := v\<rparr>)"

definition writeFileSync :: "buffer \<Rightarrow> unit io" where
  "writeFileSync buf s = (Inr (), s\<lparr>localFile := Some buf\<rparr>)"

text \<open>
  \<^verbatim>\<open>initDataSync\<close>, lines 169 to 191: the remote file is missing and the local
  file has content.
\<close>

definition init_create_remote :: "buffer \<Rightarrow> unit io" where
  "init_create_remote buf =
     try_catch
       (if length buf \<le> SIZE_WARN_LIMIT
        then await (putFileContents (Base64 buf) ''Initialize data/app.db from local'' None)
               (\<lambda>data. set_lastKnownSha (or_null data))
        else await (commitRawBlob buf ''Initialize data/app.db from local (large file)'')
               (\<lambda>_. await getRemoteSha set_lastKnownSha))
       (\<lambda>e. if status e = Some 404
             then throw (configError
               ''Failed to create remote data/app.db: repository/branch not found or token lacking permission.'')
             else throw e)"

text \<open>
  \<^verbatim>\<open>initDataSync\<close>. The directory of the local file is created when missing, which
  no later step observes. The read of the remote file is wrapped in a handler that throws
  again only when \<^verbatim>\<open>e.status && e.status !== 404\<close>.
\<close>

definition initDataSync :: "unit io" where
  "initDataSync =
     await (try_catch fetchRemoteDbBuffer
              (\<lambda>e. if (case status e of None \<Rightarrow> False | Some n \<Rightarrow> n \<noteq> 0) \<and> status e \<noteq> Some 404
                    then throw e else return None))
       (\<lambda>remote.
     await (case remote of
              Some (buf, sha) \<Rightarrow> await (writeFileSync buf) (\<lambda>_. set_lastKnownSha (Some sha))
            | None \<Rightarrow> (\<lambda>s.
                case localFile s of
                  Some buf \<Rightarrow> if length buf > 0 then init_create_remote buf s else return () s
                | None \<Rightarrow> writeFileSync [] s))
       (\<lambda>_ s. (Inr (), s\<lparr>intervalOn := True, shutdownHooked := True\<rparr>)))"

definition markDataDirty :: "state \<Rightarrow> state" where
  "markDataDirty s =
     (let s1 = s\<lparr>dirty := True\<rparr>
      in if timer s1 then s1
         else s1\<lparr>timer := True, timeouts := Suc (timeouts s1)\<rparr>)"

text \<open>
  \<^verbatim>\<open>syncNow\<close> runs without a break up to its first \<^verbatim>\<open>await\<close> (lines 235 to
  246): it returns at once, or it has read the local file and waits for
  \<^verbatim>\<open>getRemoteSha\<close>. \<open>syncNow_begin\<close> is that first part: \<open>None\<close> when the call has
  returned, the buffer read otherwise.
\<close>

definition syncNow_begin :: "bool \<Rightarrow> state \<Rightarrow> buffer option" where
  "syncNow_begin force s =
     (if \<not> dirty s \<and> \<not> force then None
      else case localFile s of None \<Rightarrow> None | Some buf \<Rightarrow> Some buf)"

text \<open>Lines 273 to 283: the blob and commit fallback, the same in both branches.\<close>

definition blob_commit :: "buffer \<Rightarrow> string \<Rightarrow> unit io" where
  "blob_commit buf msg =
     await (commitRawBlob buf msg) (\<lambda>_.
     await getRemoteSha (\<lambda>v.
     await (set_lastKnownSha v) (\<lambda>_. set_dirty False)))"

definition put_done :: "sha option \<Rightarrow> unit io" where
  "put_done data = await (set_lastKnownSha (or_null data)) (\<lambda>_. set_dirty False)"

text \<open>
  Lines 249 to 283, the remote file exists. \<open>Inr True\<close> stands for the \<^verbatim>\<open>return\<close>
  inside the \<^verbatim>\<open>try\<close> or the \<^verbatim>\<open>catch\<close> block, \<open>Inr False\<close> for falling out of
  the \<^verbatim>\<open>catch\<close> block towards the fallback. What the \<^verbatim>\<open>catch\<close> block itself
  throws leaves \<^verbatim>\<open>syncNow\<close>.
\<close>

definition sync_update :: "buffer \<Rightarrow> sha option \<Rightarrow> unit io" where
  "sync_update buf remoteSha =
     await
       (try_catch
          (await (putFileContents (Base64 buf) ''Sync data/app.db'' remoteSha)
             (\<lambda>data. await (put_done data) (\<lambda>_. return True)))
          (\<lambda>e. if is_sha_missing e
                then await getRemoteSha (\<lambda>refreshedSha.
                       if truthy refreshedSha
                       then await (putFileContents (Base64 buf) ''Sync data/app.db'' refreshedSha)
                              (\<lambda>data. await (put_done data) (\<lambda>_. return True))
                       else return False)
                else return False))
       (\<lambda>done. if done then return () else blob_commit buf ''Sync data/app.db'')"

text \<open>Lines 285 to 313, the remote file is missing.\<close>

definition sync_create :: "buffer \<Rightarrow> unit io" where
  "sync_create buf =
     (if length buf = 0 then set_dirty False
      else try_catch
             (await (putFileContents (Base64 buf) ''Create data/app.db from local'' None) put_done)
             (\<lambda>e. blob_commit buf ''Create data/app.db from local (blob commit)''))"

text \<open>The part of \<^verbatim>\<open>syncNow\<close> after the local file has been read.\<close>

definition syncNow_rest :: "buffer \<Rightarrow> unit io" where
  "syncNow_rest buf =
     await getRemoteSha (\<lambda>remoteSha.
       if truthy remoteSha then sync_update buf remoteSha else sync_create buf)"

definition syncNow :: "bool \<Rightarrow> unit io" where
  "syncNow force s =
     (case syncNow_begin force s of
        None \<Rightarrow> (Inr (), s)
      | Some buf \<Rightarrow> syncNow_rest buf s)"

section \<open>The scheduler\<close>

text \<open>
  JavaScript runs one callback at a time, and an \<^verbatim>\<open>async\<close> function gives way at an
  \<^verbatim>\<open>await\<close>. The engine is the module state together with the calls of
  \<^verbatim>\<open>syncNow\<close> that have read the local file and not finished yet. The events are
  the callbacks of the module: \<^verbatim>\<open>markDataDirty\<close>, the debounce timer (lines 223 to
  226), the periodic flush (lines 205 to 207), the signal handler (lines 210 to 215), a
  direct call of \<^verbatim>\<open>syncNow\<close>, and the rest of a waiting \<^verbatim>\<open>syncNow\<close>, which
  is run here in one piece. The signal handler ends the process once its push is over;
  the events after that are of no interest and the exit is left out.
\<close>

datatype event = MarkDirty | TimerFires | Tick | Shutdown | FlushNow bool | Resume nat

record engine =
  core :: state
  inflight :: "buffer list"

definition start_push :: "bool \<Rightarrow> engine \<Rightarrow> engine" where
  "start_push force e =
     (case syncNow_begin force (core e) of
        None \<Rightarrow> e
      | Some buf \<Rightarrow> e\<lparr>inflight := inflight e @ [buf]\<rparr>)"

fun step :: "engine \<Rightarrow> event \<Rightarrow> engine" where
  "step e MarkDirty = e\<lparr>core := markDataDirty (core e)\<rparr>"
| "step e TimerFires =
     (if 0 < timeouts (core e)
      then (let e1 = start_push False e
            in e1\<lparr>core := (core e1)\<lparr>timer := False, timeouts := timeouts (core e1) - 1\<rparr>\<rparr>)
      else e)"
| "step e Tick =
     (if intervalOn (core e) \<and> dirty (core e) then start_push False e else e)"
| "step e Shutdown =
     (if shutdownHooked (core e) \<and> dirty (core e) then start_push True e else e)"
| "step e (FlushNow force) = start_push force e"
| "step e (Resume i) =
     (if i < length (inflight e)
      then \<lparr>core = snd (syncNow_rest (inflight e ! i) (core e)),
            inflight = take i (inflight e) @ drop (Suc i) (inflight e)\<rparr>
      else e)"

definition run :: "engine \<Rightarrow> event list \<Rightarrow> engine" where
  "run e evs = foldl step e evs"

section \<open>Observing a run\<close>

text \<open>The requests sent between two states, and the ones that write to the store.\<close>

definition issued :: "state \<Rightarrow> state \<Rightarrow> (call \<times> bool) list" where
  "issued s s' = drop (length (calls s)) (calls s')"

fun is_write :: "call \<Rightarrow> bool" where
  "is_write GetContent = False"
| "is_write (GetBlob _) = False"
| "is_write (CreateOrUpdateFileContents _) = True"
| "is_write (CreateBlob _) = True"
| "is_write GetRef = False"
| "is_write (GetCommit _) = False"
| "is_write (CreateTree _ _) = True"
| "is_write (CreateCommit _ _ _) = True"
| "is_write (UpdateRef _) = True"

text \<open>
  The requests that put content in place of the remote file: the contents request, and
  the move of the branch to the new commit.
\<close>

fun is_push :: "call \<Rightarrow> bool" where
  "is_push (CreateOrUpdateFileContents _) = True"
| "is_push (UpdateRef _) = True"
| "is_push _ = False"

text \<open>The six requests of the blob, tree and commit path.\<close>

fun is_blob_path :: "call \<Rightarrow> bool" where
  "is_blob_path (CreateBlob _) = True"
| "is_blob_path GetRef = True"
| "is_blob_path (GetCommit _) = True"
| "is_blob_path (CreateTree _ _) = True"
| "is_blob_path (CreateCommit _ _ _) = True"
| "is_blob_path (UpdateRef _) = True"
| "is_blob_path _ = False"

text \<open>The module variables that only \<^verbatim>\<open>markDataDirty\<close>, the timer and start-up touch.\<close>

definition same_module :: "state \<Rightarrow> state \<Rightarrow> bool" where
  "same_module s s' =
     (timer s' = timer s \<and> timeouts s' = timeouts s \<and> localFile s' = localFile s \<and>
      intervalOn s' = intervalOn s \<and> shutdownHooked s' = shutdownHooked s)"

text \<open>The requests that carry zero-length content.\<close>

fun is_blank :: "call \<Rightarrow> bool" where
  "is_blank (CreateOrUpdateFileContents p) = (p_content p = Base64 [])"
| "is_blank (CreateBlob c) = (c = Base64 [])"
| "is_blank _ = False"

text \<open>The contents request.\<close>

fun is_contents_put :: "call \<Rightarrow> bool" where
  "is_contents_put (CreateOrUpdateFileContents _) = True"
| "is_contents_put _ = False"

text \<open>
  What a run of the push proper looks like, from the state \<open>s\<close> in which the first
  contents request \<open>p\<close> is sent to the outcome: the request comes first and carries the buffer,
  zero-length content is carried only when the buffer is empty, the blob path is entered
  only after that request was rejected, and \<^verbatim>\<open>dirty\<close> is left alone when the run
  throws, which it does only when no contents request was fulfilled, and cleared after a
  fulfilled push.
\<close>

definition push_outcome :: "params \<Rightarrow> buffer \<Rightarrow> state \<Rightarrow> (err + unit) \<times> state \<Rightarrow> bool" where
  "push_outcome p buf s out =
     (case out of (r, s') \<Rightarrow>
        \<exists>b rest.
          calls s' = calls s @ (CreateOrUpdateFileContents p, b) # rest \<and>
          p_content p = Base64 buf \<and>
          (\<forall>x \<in> set rest. is_blank (fst x) \<longrightarrow> buf = []) \<and>
          ((\<exists>x \<in> set rest. is_blob_path (fst x)) \<longrightarrow> \<not> b) \<and>
          same_module s s' \<and>
          (case r of
             Inl e \<Rightarrow> dirty s' = dirty s \<and> \<not> b \<and>
               (\<forall>x \<in> set rest. is_contents_put (fst x) \<longrightarrow> \<not> snd x)
           | Inr _ \<Rightarrow> \<not> dirty s' \<and>
               (\<exists>x \<in> set ((CreateOrUpdateFileContents p, b) # rest). is_push (fst x) \<and> snd x)))"

text \<open>
  States to run the functions on: the module as loaded (line 27 to 29), a local file, and
  a store that gives the listed answers and then one answer forever.
\<close>

definition http_error :: "nat \<Rightarrow> string \<Rightarrow> err" where
  "http_error n m = \<lparr>status = Some n, message = m, config = False\<rparr>"

definition replies_from :: "'a list \<Rightarrow> 'a \<Rightarrow> nat \<Rightarrow> 'a" where
  "replies_from xs d n = (if n < length xs then xs ! n else d)"

definition loaded ::
  "buffer option \<Rightarrow> (err + content_data) list \<Rightarrow> (err + body) list \<Rightarrow>
   (err + sha option) list \<Rightarrow> (err + sha) list \<Rightarrow> state" where
  "loaded file gc gb pr gr =
     \<lparr>lastKnownSha = None, dirty = False, timer = False, localFile = file,
      getContent_replies = replies_from gc (Inl (http_error 500 ''Server Error'')),
      getBlob_replies = replies_from gb (Inl (http_error 500 ''Server Error'')),
      put_replies = replies_from pr (Inl (http_error 500 ''Server Error'')),
      git_replies = replies_from gr (Inl (http_error 500 ''Server Error'')),
      calls = [], timeouts = 0, intervalOn = False, shutdownHooked = False\<rparr>"

definition remote_XYZ_local_ABC :: state where
  "remote_XYZ_local_ABC =
     loaded (Some ''ABC'') [Inr (File (Some ''s1''))] [Inr (BodyString ''XYZ'')] [] []"

definition not_found :: err where
  "not_found = http_error 404 ''Not Found''"

definition sha_missing_422 :: err where
  "sha_missing_422 = http_error 422 (''Invalid request. '' @ sha_wasnt_supplied @ ''.'')"

definition dirty_empty_local_remote_s1 :: state where
  "dirty_empty_local_remote_s1 =
     (loaded (Some []) [Inr (File (Some ''s1''))] [] [Inr (Some ''s2'')] [])\<lparr>dirty := True\<rparr>"

definition dirty_empty_local_remote_absent :: state where
  "dirty_empty_local_remote_absent =
     (loaded (Some []) [Inl not_found] [] [] [])\<lparr>dirty := True\<rparr>"

definition dirty_large_local_remote_absent :: state where
  "dirty_large_local_remote_absent =
     (loaded (Some (replicate 94371841 (CHR ''a''))) [Inl not_found] [] [Inr (Some ''s1'')] [])
       \<lparr>dirty := True\<rparr>"

definition dirty_stale_then_ok :: state where
  "dirty_stale_then_ok =
     (loaded (Some ''ABC123'') [Inr (File (Some ''s1'')), Inr (File (Some ''s2''))] []
        [Inl sha_missing_422, Inr (Some ''s3'')] [])\<lparr>dirty := True\<rparr>"

definition create_meets_existing :: state where
  "create_meets_existing =
     loaded (Some ''ABC'') [Inr (File (Some ''s1''))] [] [Inl sha_missing_422, Inr (Some ''s2'')] []"

definition seed_meets_existing :: state where
  "seed_meets_existing =
     loaded (Some ''ABC'') [Inl not_found, Inr (File (Some ''s1''))] []
       [Inl sha_missing_422, Inr (Some ''s2'')] []"

definition remote_is_directory :: state where
  "remote_is_directory = loaded None [Inr Directory] [] [] []"

definition large_local_remote_absent :: state where
  "large_local_remote_absent =
     loaded (Some (replicate 94371841 (CHR ''a''))) [Inl not_found, Inr (File (Some ''s1''))] [] []
       [Inr ''b1'', Inr ''c0'', Inr ''t0'', Inr ''t1'', Inr ''c1'', Inr ''c1'']"

definition dirty_update_rejected_blob_ok :: state where
  "dirty_update_rejected_blob_ok =
     (loaded (Some ''ABC'') [Inr (File (Some ''s1'')), Inr (File (Some ''s2''))] [] []
        [Inr ''b1'', Inr ''c0'', Inr ''t0'', Inr ''t1'', Inr ''c1'', Inr ''c1''])\<lparr>dirty := True\<rparr>"

definition remote_s1_blob_not_found :: state where
  "remote_s1_blob_not_found =
     loaded (Some ''ABC'') [Inr (File (Some ''s1'')), Inr (File (Some ''s1''))] [Inl not_found]
       [Inl sha_missing_422, Inr (Some ''s2'')] []"

definition remote_s1_blob_unreadable :: state where
  "remote_s1_blob_unreadable =
     loaded (Some ''ABC'') [Inr (File (Some ''s1'')), Inr (File (Some ''s1''))] [Inr BodyOther]
       [Inl sha_missing_422, Inr (Some ''s2'')] []"

definition dirty_stale_409 :: state where
  "dirty_stale_409 =
     (loaded (Some ''ABC123'') [Inr (File (Some ''s1'')), Inr (File (Some ''s2''))] []
        [Inl (http_error 409 ''data/app.db does not match s1''), Inr (Some ''s3'')]
        [Inr ''b1'', Inr ''c0'', Inr ''t0'', Inr ''t1'', Inr ''c1'', Inr ''c1''])\<lparr>dirty := True\<rparr>"

definition dirty_blob_ok_fetch_fails :: state where
  "dirty_blob_ok_fetch_fails =
     (loaded (Some ''ABC'') [Inr (File (Some ''s1''))] [] []
        [Inr ''b1'', Inr ''c0'', Inr ''t0'', Inr ''t1'', Inr ''c1'', Inr ''c1''])\<lparr>dirty := True\<rparr>"

text \<open>Engines to run the scheduler on: no push on its way.\<close>

definition idle_local_ABC :: engine where
  "idle_local_ABC = \<lparr>core = loaded (Some ''ABC'') [] [] [] [], inflight = []\<rparr>"

definition booted :: engine where
  "booted = \<lparr>core = snd (initDataSync remote_XYZ_local_ABC), inflight = []\<rparr>"

definition idle_local_ABC_remote_s1 :: engine where
  "idle_local_ABC_remote_s1 =
     \<lparr>core = loaded (Some ''ABC'') [Inr (File (Some ''s1''))] [] [Inr (Some ''s2'')] [],
      inflight = []\<rparr>"

text \<open>
  Whether a change has been signalled since the last push that returned normally, kept
  beside the engine while the events run: \<^verbatim>\<open>markDataDirty\<close> signals a change, and
  the end of a push that returns normally settles what was signalled before.
\<close>

fun track :: "engine \<times> bool \<Rightarrow> event \<Rightarrow> engine \<times> bool" where
  "track (e, owed) MarkDirty = (step e MarkDirty, True)"
| "track (e, owed) (Resume i) =
     (step e (Resume i),
      if i < length (inflight e) \<and> fst (syncNow_rest (inflight e ! i) (core e)) = Inr ()
      then False else owed)"
| "track (e, owed) ev = (step e ev, owed)"

definition signalled_since_settled :: "engine \<Rightarrow> event list \<Rightarrow> bool" where
  "signalled_since_settled e evs = snd (foldl track (e, False) evs)"

text \<open>The timer variable and the pending callbacks agree.\<close>

definition one_timer :: "engine \<Rightarrow> bool" where
  "one_timer e = (timeouts (core e) = (if timer (core e) then 1 else 0))"

section \<open>Facts about the single functions\<close>

lemmas io_defs = await_def try_catch_def return_def throw_def

lemmas api_defs = octokit_getContent_def octokit_getBlob_def
  octokit_createOrUpdateFileContents_def octokit_git_def fulfilled_def

lemma getRemoteSha_effect:
  "snd (getRemoteSha s) =
     s\<lparr>getContent_replies := (\<lambda>n. getContent_replies s (Suc n)),
       calls := calls s @ [(GetContent, fulfilled (getContent_replies s 0))]\<rparr>"
  by (simp add: getRemoteSha_def io_defs api_defs Let_def split: sum.splits content_data.splits)

lemma getRemoteSha_result:
  "fst (getRemoteSha s) =
     (case getContent_replies s 0 of
        Inl e \<Rightarrow> if status e = Some 404 then Inr None else Inl e
      | Inr Directory \<Rightarrow> Inl (Error ''Expected file, found directory at data/app.db'')
      | Inr (File sha) \<Rightarrow> Inr (or_null sha))"
  by (simp add: getRemoteSha_def io_defs api_defs Let_def Error_def
      split: sum.splits content_data.splits)

lemma fetch_Some:
  assumes "fst (fetchRemoteDbBuffer s) = Inr (Some (buf, sha))"
  shows "\<exists>b1 b2. fetchRemoteDbBuffer s = (Inr (Some (buf, sha)),
     s\<lparr>getContent_replies := (\<lambda>n. getContent_replies s (Suc n)),
       getBlob_replies := (\<lambda>n. getBlob_replies s (Suc n)),
       calls := calls s @ [(GetContent, b1), (GetBlob sha, b2)]\<rparr>)"
  using assms
  by (auto simp: fetchRemoteDbBuffer_def getRemoteSha_def io_defs api_defs
       Let_def or_null_def Error_def
      split: sum.splits content_data.splits option.splits if_splits body.splits base64.splits)

lemma same_module_trans: "same_module a b \<Longrightarrow> same_module b c \<Longrightarrow> same_module a c"
  by (simp add: same_module_def)

lemma put_outcome:
  "\<exists>r s1 b rest.
     putFileContents (Base64 buf) msg sha s = (r, s1) \<and>
     calls s1 = calls s @
       (CreateOrUpdateFileContents
          \<lparr>p_message = msg, p_content = Base64 buf, p_sha = (if truthy sha then sha else None)\<rparr>, b) # rest \<and>
     (\<forall>x \<in> set rest. \<not> is_blob_path (fst x) \<and> (is_blank (fst x) \<longrightarrow> buf = [])) \<and>
     same_module s s1 \<and> dirty s1 = dirty s \<and> lastKnownSha s1 = lastKnownSha s \<and>
     (case r of
        Inl e \<Rightarrow> \<not> b \<and> (\<forall>x \<in> set rest. is_contents_put (fst x) \<longrightarrow> \<not> snd x)
      | Inr v \<Rightarrow> b \<or> (\<exists>x \<in> set rest. is_push (fst x) \<and> snd x))"
  by (auto simp: putFileContents_def getRemoteSha_def same_module_def io_defs api_defs Let_def
      split: sum.splits content_data.splits if_splits)

lemma blob_commit_outcome:
  "\<exists>r s1 b rest.
     blob_commit buf msg s = (r, s1) \<and>
     calls s1 = calls s @ (CreateBlob (Base64 buf), b) # rest \<and>
     (\<forall>x \<in> set rest. \<not> is_blank (fst x) \<and> \<not> is_contents_put (fst x)) \<and>
     same_module s s1 \<and>
     (case r of
        Inl e \<Rightarrow> dirty s1 = dirty s
      | Inr _ \<Rightarrow> \<not> dirty s1 \<and> (\<exists>x \<in> set rest. is_push (fst x) \<and> snd x))"
  by (auto simp: blob_commit_def commitRawBlob_def getRemoteSha_def same_module_def
      set_lastKnownSha_def set_dirty_def io_defs api_defs Let_def
      split: sum.splits content_data.splits if_splits)

lemma getRemoteSha_outcome:
  "\<exists>r s1 b. getRemoteSha s = (r, s1) \<and> calls s1 = calls s @ [(GetContent, b)] \<and>
     same_module s s1 \<and> dirty s1 = dirty s \<and> lastKnownSha s1 = lastKnownSha s"
  by (auto simp: getRemoteSha_def same_module_def io_defs api_defs Let_def
      split: sum.splits content_data.splits if_splits)

lemma put_done_eq: "put_done data s = (Inr (), s\<lparr>lastKnownSha := or_null data, dirty := False\<rparr>)"
  by (simp add: put_done_def set_lastKnownSha_def set_dirty_def io_defs)

lemma sync_update_outcome:
  "push_outcome \<lparr>p_message = ''Sync data/app.db'', p_content = Base64 buf,
      p_sha = (if truthy sha then sha else None)\<rparr> buf s (sync_update buf sha s)"
proof -
  let ?msg = "''Sync data/app.db''"
  from put_outcome [of buf ?msg sha s] obtain r1 s1 b1 rest1 where
    p1: "putFileContents (Base64 buf) ?msg sha s = (r1, s1)"
    and c1: "calls s1 = calls s @
       (CreateOrUpdateFileContents
          \<lparr>p_message = ?msg, p_content = Base64 buf, p_sha = (if truthy sha then sha else None)\<rparr>, b1) # rest1"
    and n1: "\<forall>x \<in> set rest1. \<not> is_blob_path (fst x) \<and> (is_blank (fst x) \<longrightarrow> buf = [])"
    and m1: "same_module s s1" and d1: "dirty s1 = dirty s"
    and o1: "case r1 of
           Inl e \<Rightarrow> \<not> b1 \<and> (\<forall>x \<in> set rest1. is_contents_put (fst x) \<longrightarrow> \<not> snd x)
         | Inr v \<Rightarrow> b1 \<or> (\<exists>x \<in> set rest1. is_push (fst x) \<and> snd x)"
    by blast
  show ?thesis
  proof (cases r1)
    case (Inr data)
    then have "sync_update buf sha s = (Inr (), s1\<lparr>lastKnownSha := or_null data, dirty := False\<rparr>)"
      by (simp add: sync_update_def io_defs p1 put_done_eq)
    then show ?thesis
      using c1 n1 m1 o1 Inr by (auto simp: push_outcome_def same_module_def)
  next
    case (Inl e)
    with o1 have nb: "\<not> b1"
      and nf: "\<forall>x \<in> set rest1. is_contents_put (fst x) \<longrightarrow> \<not> snd x"
      by simp_all
    show ?thesis
    proof (cases "is_sha_missing e")
      case False
      then have eq: "sync_update buf sha s = blob_commit buf ?msg s1"
        by (simp add: sync_update_def io_defs p1 Inl)
      from blob_commit_outcome [of buf ?msg s1] obtain r2 s2 b2 rest2 where
        p2: "blob_commit buf ?msg s1 = (r2, s2)"
        and c2: "calls s2 = calls s1 @ (CreateBlob (Base64 buf), b2) # rest2"
        and n2: "\<forall>x \<in> set rest2. \<not> is_blank (fst x) \<and> \<not> is_contents_put (fst x)"
        and m2: "same_module s1 s2"
        and o2: "case r2 of Inl e \<Rightarrow> dirty s2 = dirty s1
                 | Inr _ \<Rightarrow> \<not> dirty s2 \<and> (\<exists>x \<in> set rest2. is_push (fst x) \<and> snd x)"
        by blast
      show ?thesis
        unfolding eq p2 push_outcome_def
        using c1 c2 n1 n2 nb nf d1 o2 same_module_trans [OF m1 m2]
        by (auto split: sum.splits)
    next
      case True
      from getRemoteSha_outcome [of s1] obtain r3 s3 b3 where
        p3: "getRemoteSha s1 = (r3, s3)" and c3: "calls s3 = calls s1 @ [(GetContent, b3)]"
        and m3: "same_module s1 s3" and d3: "dirty s3 = dirty s1"
        by blast
      show ?thesis
      proof (cases r3)
        case (Inl e3)
        then have "sync_update buf sha s = (Inl e3, s3)"
          using True by (simp add: sync_update_def io_defs p1 \<open>r1 = Inl e\<close> p3)
        then show ?thesis
          using c1 c3 n1 nb nf d1 d3 same_module_trans [OF m1 m3]
          by (auto simp: push_outcome_def)
      next
        case (Inr refreshedSha)
        show ?thesis
        proof (cases "truthy refreshedSha")
          case False
          then have eq: "sync_update buf sha s = blob_commit buf ?msg s3"
            using True by (simp add: sync_update_def io_defs p1 \<open>r1 = Inl e\<close> p3 Inr)
          from blob_commit_outcome [of buf ?msg s3] obtain r2 s2 b2 rest2 where
            p2: "blob_commit buf ?msg s3 = (r2, s2)"
            and c2: "calls s2 = calls s3 @ (CreateBlob (Base64 buf), b2) # rest2"
            and n2: "\<forall>x \<in> set rest2. \<not> is_blank (fst x) \<and> \<not> is_contents_put (fst x)"
            and m2: "same_module s3 s2"
            and o2: "case r2 of Inl e \<Rightarrow> dirty s2 = dirty s3
                     | Inr _ \<Rightarrow> \<not> dirty s2 \<and> (\<exists>x \<in> set rest2. is_push (fst x) \<and> snd x)"
            by blast
          show ?thesis
            unfolding eq p2 push_outcome_def
            using c1 c2 c3 n1 n2 nb nf d1 d3 o2 same_module_trans [OF same_module_trans [OF m1 m3] m2]
            by (auto split: sum.splits)
        next
          case t: True
          from put_outcome [of buf ?msg refreshedSha s3] obtain r4 s4 b4 rest4 where
            p4: "putFileContents (Base64 buf) ?msg refreshedSha s3 = (r4, s4)"
            and c4: "calls s4 = calls s3 @
              (CreateOrUpdateFileContents
                \<lparr>p_message = ?msg, p_content = Base64 buf,
                  p_sha = (if truthy refreshedSha then refreshedSha else None)\<rparr>, b4) # rest4"
            and n4: "\<forall>x \<in> set rest4. \<not> is_blob_path (fst x) \<and> (is_blank (fst x) \<longrightarrow> buf = [])"
            and m4: "same_module s3 s4" and d4: "dirty s4 = dirty s3"
            and o4: "case r4 of
             Inl e \<Rightarrow> \<not> b4 \<and> (\<forall>x \<in> set rest4. is_contents_put (fst x) \<longrightarrow> \<not> snd x)
           | Inr v \<Rightarrow> b4 \<or> (\<exists>x \<in> set rest4. is_push (fst x) \<and> snd x)"
            by blast
          have mm: "same_module s s4"
            using same_module_trans [OF same_module_trans [OF m1 m3] m4] .
          show ?thesis
          proof (cases r4)
            case (Inl e4)
            then have "sync_update buf sha s = (Inl e4, s4)"
              using True t by (simp add: sync_update_def io_defs p1 \<open>r1 = Inl e\<close> p3 Inr p4)
            then show ?thesis
              using c1 c3 c4 n1 n4 nb nf d1 d3 d4 mm o4 Inl
              by (auto simp: push_outcome_def)
          next
            case r4: (Inr data)
            then have "sync_update buf sha s =
                (Inr (), s4\<lparr>lastKnownSha := or_null data, dirty := False\<rparr>)"
              using True t by (simp add: sync_update_def io_defs p1 \<open>r1 = Inl e\<close> p3 Inr p4 put_done_eq)
            then show ?thesis
              using c1 c3 c4 n1 n4 nb o4 r4 mm
              by (auto simp: push_outcome_def same_module_def)
          qed
        qed
      qed
    qed
  qed
qed

lemma sync_create_empty: "sync_create [] s = (Inr (), s\<lparr>dirty := False\<rparr>)"
  by (simp add: sync_create_def set_dirty_def)

lemma sync_create_outcome:
  assumes ne: "buf \<noteq> []"
  shows "push_outcome \<lparr>p_message = ''Create data/app.db from local'', p_content = Base64 buf,
      p_sha = None\<rparr> buf s (sync_create buf s)"
proof -
  let ?msg = "''Create data/app.db from local''"
  let ?msg2 = "''Create data/app.db from local (blob commit)''"
  from put_outcome [of buf ?msg None s] obtain r1 s1 b1 rest1 where
    p1: "putFileContents (Base64 buf) ?msg None s = (r1, s1)"
    and c1: "calls s1 = calls s @
       (CreateOrUpdateFileContents
          \<lparr>p_message = ?msg, p_content = Base64 buf, p_sha = (if truthy None then None else None)\<rparr>, b1) # rest1"
    and n1: "\<forall>x \<in> set rest1. \<not> is_blob_path (fst x) \<and> (is_blank (fst x) \<longrightarrow> buf = [])"
    and m1: "same_module s s1" and d1: "dirty s1 = dirty s"
    and o1: "case r1 of
           Inl e \<Rightarrow> \<not> b1 \<and> (\<forall>x \<in> set rest1. is_contents_put (fst x) \<longrightarrow> \<not> snd x)
         | Inr v \<Rightarrow> b1 \<or> (\<exists>x \<in> set rest1. is_push (fst x) \<and> snd x)"
    by blast
  show ?thesis
  proof (cases r1)
    case (Inr data)
    then have "sync_create buf s = (Inr (), s1\<lparr>lastKnownSha := or_null data, dirty := False\<rparr>)"
      using ne by (simp add: sync_create_def io_defs p1 put_done_eq)
    then show ?thesis
      using c1 n1 m1 o1 Inr by (auto simp: push_outcome_def same_module_def)
  next
    case (Inl e)
    with o1 have nb: "\<not> b1"
      and nf: "\<forall>x \<in> set rest1. is_contents_put (fst x) \<longrightarrow> \<not> snd x"
      by simp_all
    have eq: "sync_create buf s = blob_commit buf ?msg2 s1"
      using ne by (simp add: sync_create_def io_defs p1 Inl)
    from blob_commit_outcome [of buf ?msg2 s1] obtain r2 s2 b2 rest2 where
      p2: "blob_commit buf ?msg2 s1 = (r2, s2)"
      and c2: "calls s2 = calls s1 @ (CreateBlob (Base64 buf), b2) # rest2"
      and n2: "\<forall>x \<in> set rest2. \<not> is_blank (fst x) \<and> \<not> is_contents_put (fst x)"
      and m2: "same_module s1 s2"
      and o2: "case r2 of Inl e \<Rightarrow> dirty s2 = dirty s1
               | Inr _ \<Rightarrow> \<not> dirty s2 \<and> (\<exists>x \<in> set rest2. is_push (fst x) \<and> snd x)"
      by blast
    show ?thesis
      unfolding eq p2 push_outcome_def
      using c1 c2 n1 n2 nb nf d1 o2 ne same_module_trans [OF m1 m2]
      by (auto split: sum.splits)
  qed
qed

lemma getRemoteSha_normal:
  "fst (getRemoteSha s) = Inr v \<Longrightarrow> truthy v = (v \<noteq> None)"
  by (auto simp: getRemoteSha_result truthy_def or_null_def
      split: sum.splits content_data.splits option.splits if_splits)

text \<open>The three ways \<^verbatim>\<open>syncNow\<close> goes on once the version tag has been asked for.\<close>

lemma syncNow_rest_cases:
  "\<exists>r0 s0 b0. getRemoteSha s = (r0, s0) \<and> calls s0 = calls s @ [(GetContent, b0)] \<and>
     same_module s s0 \<and> dirty s0 = dirty s \<and>
     syncNow_rest buf s =
       (case r0 of
          Inl e \<Rightarrow> (Inl e, s0)
        | Inr None \<Rightarrow> sync_create buf s0
        | Inr (Some sha) \<Rightarrow> sync_update buf (Some sha) s0)"
proof -
  from getRemoteSha_outcome [of s] obtain r0 s0 b0 where
    g: "getRemoteSha s = (r0, s0)" and c: "calls s0 = calls s @ [(GetContent, b0)]"
    and m: "same_module s s0" and d: "dirty s0 = dirty s"
    by blast
  have "syncNow_rest buf s =
       (case r0 of
          Inl e \<Rightarrow> (Inl e, s0)
        | Inr None \<Rightarrow> sync_create buf s0
        | Inr (Some sha) \<Rightarrow> sync_update buf (Some sha) s0)"
  proof (cases r0)
    case (Inl e)
    then show ?thesis by (simp add: syncNow_rest_def io_defs g)
  next
    case (Inr v)
    with g have "fst (getRemoteSha s) = Inr v" by simp
    from getRemoteSha_normal [OF this] Inr show ?thesis
      by (cases v) (simp_all add: syncNow_rest_def io_defs g)
  qed
  with g c m d show ?thesis by blast
qed

text \<open>What every run of the rest of \<^verbatim>\<open>syncNow\<close> looks like.\<close>

lemma syncNow_rest_outcome:
  "\<exists>r s' b0 new.
     syncNow_rest buf s = (r, s') \<and> calls s' = calls s @ (GetContent, b0) # new \<and>
     same_module s s' \<and>
     ((\<exists>e. fst (getRemoteSha s) = Inl e \<and> r = Inl e \<and> new = [] \<and> dirty s' = dirty s) \<or>
      (fst (getRemoteSha s) = Inr None \<and> buf = [] \<and> r = Inr () \<and> new = [] \<and> \<not> dirty s') \<or>
      (fst (getRemoteSha s) = Inr None \<and> buf \<noteq> [] \<and>
       push_outcome \<lparr>p_message = ''Create data/app.db from local'', p_content = Base64 buf,
         p_sha = None\<rparr> buf (snd (getRemoteSha s)) (r, s')) \<or>
      (\<exists>sha. fst (getRemoteSha s) = Inr (Some sha) \<and>
       push_outcome \<lparr>p_message = ''Sync data/app.db'', p_content = Base64 buf,
         p_sha = Some sha\<rparr> buf (snd (getRemoteSha s)) (r, s')))"
proof -
  from syncNow_rest_cases [of s buf] obtain r0 s0 b0 where
    g: "getRemoteSha s = (r0, s0)" and c: "calls s0 = calls s @ [(GetContent, b0)]"
    and m: "same_module s s0" and d: "dirty s0 = dirty s"
    and eq: "syncNow_rest buf s =
       (case r0 of
          Inl e \<Rightarrow> (Inl e, s0)
        | Inr None \<Rightarrow> sync_create buf s0
        | Inr (Some sha) \<Rightarrow> sync_update buf (Some sha) s0)"
    by blast
  show ?thesis
  proof (cases r0)
    case (Inl e)
    with eq g c m d show ?thesis by auto
  next
    case (Inr v)
    show ?thesis
    proof (cases v)
      case (Some sha)
      from Inr Some g have "truthy (Some sha)"
        using getRemoteSha_normal [of s "Some sha"] by simp
      then have po: "push_outcome \<lparr>p_message = ''Sync data/app.db'', p_content = Base64 buf,
         p_sha = Some sha\<rparr> buf s0 (sync_update buf (Some sha) s0)"
        using sync_update_outcome [of buf "Some sha" s0] by simp
      obtain r s' where rs: "sync_update buf (Some sha) s0 = (r, s')"
        by (cases "sync_update buf (Some sha) s0")
      from po rs obtain new where "calls s' = calls s0 @ new" "same_module s0 s'"
        by (auto simp: push_outcome_def)
      with eq g c m Inr Some rs po same_module_trans [OF m] show ?thesis
        by auto
    next
      case None
      show ?thesis
      proof (cases "buf = []")
        case True
        with eq g c m d Inr None show ?thesis
          by (auto simp: sync_create_empty same_module_def)
      next
        case False
        have po: "push_outcome \<lparr>p_message = ''Create data/app.db from local'',
           p_content = Base64 buf, p_sha = None\<rparr> buf s0 (sync_create buf s0)"
          by (rule sync_create_outcome [OF False])
        obtain r s' where rs: "sync_create buf s0 = (r, s')"
          by (cases "sync_create buf s0")
        from po rs obtain new where "calls s' = calls s0 @ new" "same_module s0 s'"
          by (auto simp: push_outcome_def)
        with eq g c m Inr None rs po False same_module_trans [OF m] show ?thesis
          by auto
      qed
    qed
  qed
qed

section \<open>Facts about start-up\<close>

lemma init_create_remote_outcome:
  "\<exists>r s1 new.
     init_create_remote buf s = (r, s1) \<and> calls s1 = calls s @ new \<and> dirty s1 = dirty s \<and>
     (buf \<noteq> [] \<longrightarrow> (\<forall>x \<in> set new. \<not> is_blank (fst x))) \<and>
     (length buf \<le> SIZE_WARN_LIMIT \<longrightarrow>
        (\<exists>b rest. new = (CreateOrUpdateFileContents
            \<lparr>p_message = ''Initialize data/app.db from local'', p_content = Base64 buf,
              p_sha = None\<rparr>, b) # rest \<and>
          (\<forall>x \<in> set rest. \<not> is_blob_path (fst x)))) \<and>
     (SIZE_WARN_LIMIT < length buf \<longrightarrow>
        (\<exists>b rest. new = (CreateBlob (Base64 buf), b) # rest \<and>
          (\<forall>x \<in> set rest. \<not> is_contents_put (fst x))))"
proof (cases "length buf \<le> SIZE_WARN_LIMIT")
  case True
  then show ?thesis
    by (auto simp: init_create_remote_def putFileContents_def getRemoteSha_def set_lastKnownSha_def
        io_defs api_defs Let_def truthy_def or_null_def
        split: sum.splits content_data.splits if_splits)
next
  case False
  then show ?thesis
    by (auto simp: init_create_remote_def commitRawBlob_def getRemoteSha_def set_lastKnownSha_def
        io_defs api_defs Let_def
        split: sum.splits content_data.splits if_splits)
qed

lemma fetch_outcome:
  "\<exists>r s1 new. fetchRemoteDbBuffer s = (r, s1) \<and> calls s1 = calls s @ new \<and>
     (\<forall>x \<in> set new. \<not> is_write (fst x) \<and> \<not> is_blob_path (fst x) \<and> \<not> is_contents_put (fst x)) \<and>
     dirty s1 = dirty s \<and> localFile s1 = localFile s"
  by (auto simp: fetchRemoteDbBuffer_def getRemoteSha_def io_defs api_defs Let_def
      split: sum.splits content_data.splits if_splits option.splits body.splits base64.splits)

text \<open>What every run of \<^verbatim>\<open>initDataSync\<close> looks like.\<close>

lemma init_outcome:
  "\<exists>r s' new.
     initDataSync s = (r, s') \<and> calls s' = calls s @ new \<and> dirty s' = dirty s \<and>
     (\<forall>x \<in> set new. \<not> is_blank (fst x)) \<and>
     (\<forall>buf. fst (fetchRemoteDbBuffer s) = Inr None \<and> localFile s = Some buf \<and> buf \<noteq> [] \<longrightarrow>
        (length buf \<le> SIZE_WARN_LIMIT \<longrightarrow>
           (\<exists>b rest. filter (is_write \<circ> fst) new = (CreateOrUpdateFileContents
              \<lparr>p_message = ''Initialize data/app.db from local'', p_content = Base64 buf,
                p_sha = None\<rparr>, b) # rest) \<and>
           (\<forall>x \<in> set new. \<not> is_blob_path (fst x))) \<and>
        (SIZE_WARN_LIMIT < length buf \<longrightarrow>
           (\<exists>b rest. filter (is_write \<circ> fst) new = (CreateBlob (Base64 buf), b) # rest) \<and>
           (\<forall>x \<in> set new. \<not> is_contents_put (fst x))))"
proof -
  from fetch_outcome [of s] obtain r0 s0 new0 where
    f: "fetchRemoteDbBuffer s = (r0, s0)" and c0: "calls s0 = calls s @ new0"
    and n0: "\<forall>x \<in> set new0. \<not> is_write (fst x) \<and> \<not> is_blob_path (fst x) \<and> \<not> is_contents_put (fst x)"
    and d0: "dirty s0 = dirty s" and l0: "localFile s0 = localFile s"
    by blast
  from n0 have nb0: "\<forall>x \<in> set new0. \<not> is_blank (fst x)"
    by (metis is_blank.elims(2) is_write.simps(3) is_write.simps(4))
  from n0 have fl0: "filter (is_write \<circ> fst) new0 = []"
    by (simp add: filter_empty_conv)
  define seed where "seed = (\<lambda>s1. case localFile s1 of
       Some buf \<Rightarrow> if length buf > 0 then init_create_remote buf s1 else return () s1
     | None \<Rightarrow> writeFileSync [] s1)"
  have seed_facts: "\<exists>r1 s1 new1. seed s0 = (r1, s1) \<and> calls s1 = calls s0 @ new1 \<and> dirty s1 = dirty s0 \<and>
     (\<forall>x \<in> set new1. \<not> is_blank (fst x)) \<and>
     (\<forall>buf. localFile s = Some buf \<and> buf \<noteq> [] \<longrightarrow>
        (length buf \<le> SIZE_WARN_LIMIT \<longrightarrow>
           (\<exists>b rest. filter (is_write \<circ> fst) new1 = (CreateOrUpdateFileContents
              \<lparr>p_message = ''Initialize data/app.db from local'', p_content = Base64 buf,
                p_sha = None\<rparr>, b) # rest) \<and>
           (\<forall>x \<in> set new1. \<not> is_blob_path (fst x))) \<and>
        (SIZE_WARN_LIMIT < length buf \<longrightarrow>
           (\<exists>b rest. filter (is_write \<circ> fst) new1 = (CreateBlob (Base64 buf), b) # rest) \<and>
           (\<forall>x \<in> set new1. \<not> is_contents_put (fst x))))"
  proof (cases "localFile s")
    case None
    then show ?thesis
      using l0 by (simp add: seed_def writeFileSync_def)
  next
    case (Some buf)
    show ?thesis
    proof (cases "buf = []")
      case True
      then show ?thesis
        using l0 Some by (simp add: seed_def return_def)
    next
      case False
      from init_create_remote_outcome [of buf s0] obtain r1 s1 new1 where
        i: "init_create_remote buf s0 = (r1, s1)" and c1: "calls s1 = calls s0 @ new1"
        and d1: "dirty s1 = dirty s0"
        and b1: "buf \<noteq> [] \<longrightarrow> (\<forall>x \<in> set new1. \<not> is_blank (fst x))"
        and small: "length buf \<le> SIZE_WARN_LIMIT \<longrightarrow>
          (\<exists>b rest. new1 = (CreateOrUpdateFileContents
            \<lparr>p_message = ''Initialize data/app.db from local'', p_content = Base64 buf,
              p_sha = None\<rparr>, b) # rest \<and>
          (\<forall>x \<in> set rest. \<not> is_blob_path (fst x)))"
        and large: "SIZE_WARN_LIMIT < length buf \<longrightarrow>
          (\<exists>b rest. new1 = (CreateBlob (Base64 buf), b) # rest \<and>
          (\<forall>x \<in> set rest. \<not> is_contents_put (fst x)))"
        by blast
      have "seed s0 = (r1, s1)"
        using l0 Some False i by (simp add: seed_def)
      moreover have "length buf \<le> SIZE_WARN_LIMIT \<longrightarrow>
           (\<exists>b rest. filter (is_write \<circ> fst) new1 = (CreateOrUpdateFileContents
              \<lparr>p_message = ''Initialize data/app.db from local'', p_content = Base64 buf,
                p_sha = None\<rparr>, b) # rest) \<and>
           (\<forall>x \<in> set new1. \<not> is_blob_path (fst x))"
        using small by auto
      moreover have "SIZE_WARN_LIMIT < length buf \<longrightarrow>
           (\<exists>b rest. filter (is_write \<circ> fst) new1 = (CreateBlob (Base64 buf), b) # rest) \<and>
           (\<forall>x \<in> set new1. \<not> is_contents_put (fst x))"
        using large by auto
      ultimately show ?thesis
        using c1 d1 b1 False Some by auto
    qed
  qed
  then obtain r1 s1 new1 where
    sd: "seed s0 = (r1, s1)" and c1: "calls s1 = calls s0 @ new1" and d1: "dirty s1 = dirty s0"
    and b1: "\<forall>x \<in> set new1. \<not> is_blank (fst x)"
    and route: "\<forall>buf. localFile s = Some buf \<and> buf \<noteq> [] \<longrightarrow>
        (length buf \<le> SIZE_WARN_LIMIT \<longrightarrow>
           (\<exists>b rest. filter (is_write \<circ> fst) new1 = (CreateOrUpdateFileContents
              \<lparr>p_message = ''Initialize data/app.db from local'', p_content = Base64 buf,
                p_sha = None\<rparr>, b) # rest) \<and>
           (\<forall>x \<in> set new1. \<not> is_blob_path (fst x))) \<and>
        (SIZE_WARN_LIMIT < length buf \<longrightarrow>
           (\<exists>b rest. filter (is_write \<circ> fst) new1 = (CreateBlob (Base64 buf), b) # rest) \<and>
           (\<forall>x \<in> set new1. \<not> is_contents_put (fst x)))"
    by blast
  have unfold: "initDataSync s =
     (case (case r0 of
              Inl e \<Rightarrow> if (case status e of None \<Rightarrow> False | Some n \<Rightarrow> n \<noteq> 0) \<and> status e \<noteq> Some 404
                       then (Inl e, s0) else (Inr None, s0)
            | Inr x \<Rightarrow> (Inr x, s0)) of
        (Inl e, s1) \<Rightarrow> (Inl e, s1)
      | (Inr None, s1) \<Rightarrow>
          (case seed s1 of (Inl e, s2) \<Rightarrow> (Inl e, s2)
           | (Inr _, s2) \<Rightarrow> (Inr (), s2\<lparr>intervalOn := True, shutdownHooked := True\<rparr>))
      | (Inr (Some (buf, sha)), s1) \<Rightarrow>
          (Inr (), s1\<lparr>localFile := Some buf, lastKnownSha := Some sha,
                      intervalOn := True, shutdownHooked := True\<rparr>))"
    by (simp add: initDataSync_def io_defs f seed_def writeFileSync_def set_lastKnownSha_def
        split: sum.splits option.splits prod.splits)
  show ?thesis
  proof (cases "\<exists>buf sha. r0 = Inr (Some (buf, sha))")
    case True
    then obtain buf sha where r0: "r0 = Inr (Some (buf, sha))" by blast
    show ?thesis
      unfolding unfold using r0 c0 d0 nb0 f by simp
  next
    case False
    show ?thesis
    proof (cases "\<exists>e. r0 = Inl e \<and> (case status e of None \<Rightarrow> False | Some n \<Rightarrow> n \<noteq> 0) \<and> status e \<noteq> Some 404")
      case True
      then show ?thesis
        unfolding unfold using c0 d0 nb0 f by auto
    next
      case nt: False
      have u2: "initDataSync s = (case r1 of Inl e \<Rightarrow> (Inl e, s1)
           | Inr _ \<Rightarrow> (Inr (), s1\<lparr>intervalOn := True, shutdownHooked := True\<rparr>))"
        unfolding unfold using False nt sd
        by (auto split: sum.splits option.splits)
      show ?thesis
        unfolding u2 using c0 c1 d0 d1 nb0 b1 route n0 fl0 f
        by (cases r1) auto
    qed
  qed
qed

section \<open>Facts about the flush\<close>

lemma syncNow_begin_Some:
  "syncNow_begin force s = Some buf \<longleftrightarrow> (dirty s \<or> force) \<and> localFile s = Some buf"
  by (auto simp: syncNow_begin_def split: option.splits)

lemma syncNow_skips: "syncNow_begin force s = None \<Longrightarrow> syncNow force s = (Inr (), s)"
  by (simp add: syncNow_def)

lemma syncNow_runs: "syncNow_begin force s = Some buf \<Longrightarrow> syncNow force s = syncNow_rest buf s"
  by (simp add: syncNow_def)

text \<open>What every run of \<^verbatim>\<open>syncNow\<close> looks like.\<close>

lemma syncNow_cases [case_names skipped failed refused pushed]:
  obtains
    (skipped) "syncNow force s = (Inr (), s)" "syncNow_begin force s = None"
  | (failed) buf e s' b0 where
      "syncNow_begin force s = Some buf" "syncNow force s = (Inl e, s')"
      "issued s s' = [(GetContent, b0)]" "dirty s' = dirty s" "fst (getRemoteSha s) = Inl e"
  | (refused) s' b0 where
      "syncNow_begin force s = Some []" "syncNow force s = (Inr (), s')"
      "issued s s' = [(GetContent, b0)]" "\<not> dirty s'" "fst (getRemoteSha s) = Inr None"
  | (pushed) buf r s' b0 p b rest where
      "syncNow_begin force s = Some buf" "syncNow force s = (r, s')"
      "issued s s' = (GetContent, b0) # (CreateOrUpdateFileContents p, b) # rest"
      "p_content p = Base64 buf"
      "fst (getRemoteSha s) = Inr None \<and> buf \<noteq> [] \<and>
         p = \<lparr>p_message = ''Create data/app.db from local'', p_content = Base64 buf,
               p_sha = None\<rparr> \<or>
       (\<exists>sha. fst (getRemoteSha s) = Inr (Some sha) \<and>
         p = \<lparr>p_message = ''Sync data/app.db'', p_content = Base64 buf, p_sha = Some sha\<rparr>)"
      "\<forall>x \<in> set rest. is_blank (fst x) \<longrightarrow> buf = []"
      "(\<exists>x \<in> set rest. is_blob_path (fst x)) \<longrightarrow> \<not> b"
      "case r of
         Inl e \<Rightarrow> dirty s' = dirty s \<and> \<not> b \<and>
               (\<forall>x \<in> set rest. is_contents_put (fst x) \<longrightarrow> \<not> snd x)
       | Inr _ \<Rightarrow> \<not> dirty s' \<and>
           (\<exists>x \<in> set ((CreateOrUpdateFileContents p, b) # rest). is_push (fst x) \<and> snd x)"
proof (cases "syncNow_begin force s")
  case None
  then show ?thesis by (simp add: syncNow_skips skipped)
next
  case (Some buf)
  obtain r0 s0 where g: "getRemoteSha s = (r0, s0)"
    by (cases "getRemoteSha s")
  have c0: "calls s0 = calls s @ [(GetContent, fulfilled (getContent_replies s 0))]"
    and d0: "dirty s0 = dirty s"
    using getRemoteSha_effect [of s] g by simp_all
  from syncNow_rest_outcome [of buf s] obtain r s' b0 new where
    run: "syncNow_rest buf s = (r, s')" and c: "calls s' = calls s @ (GetContent, b0) # new"
    and o: "(\<exists>e. fst (getRemoteSha s) = Inl e \<and> r = Inl e \<and> new = [] \<and> dirty s' = dirty s) \<or>
      (fst (getRemoteSha s) = Inr None \<and> buf = [] \<and> r = Inr () \<and> new = [] \<and> \<not> dirty s') \<or>
      (fst (getRemoteSha s) = Inr None \<and> buf \<noteq> [] \<and>
       push_outcome \<lparr>p_message = ''Create data/app.db from local'', p_content = Base64 buf,
         p_sha = None\<rparr> buf (snd (getRemoteSha s)) (r, s')) \<or>
      (\<exists>sha. fst (getRemoteSha s) = Inr (Some sha) \<and>
       push_outcome \<lparr>p_message = ''Sync data/app.db'', p_content = Base64 buf,
         p_sha = Some sha\<rparr> buf (snd (getRemoteSha s)) (r, s'))"
    by blast
  have sr: "syncNow force s = (r, s')"
    using Some run by (simp add: syncNow_runs)
  have i: "issued s s' = (GetContent, b0) # new"
    using c by (simp add: issued_def)
  have po: "\<exists>b rest. new = (CreateOrUpdateFileContents p, b) # rest \<and>
          (\<forall>x \<in> set rest. is_blank (fst x) \<longrightarrow> buf = []) \<and>
          ((\<exists>x \<in> set rest. is_blob_path (fst x)) \<longrightarrow> \<not> b) \<and>
          (case r of
             Inl e \<Rightarrow> dirty s' = dirty s \<and> \<not> b \<and>
               (\<forall>x \<in> set rest. is_contents_put (fst x) \<longrightarrow> \<not> snd x)
           | Inr _ \<Rightarrow> \<not> dirty s' \<and>
               (\<exists>x \<in> set ((CreateOrUpdateFileContents p, b) # rest). is_push (fst x) \<and> snd x))"
    if "push_outcome p buf s0 (r, s')" for p
  proof -
    from that obtain b rest where
      1: "calls s' = calls s0 @ (CreateOrUpdateFileContents p, b) # rest"
      and 3: "\<forall>x \<in> set rest. is_blank (fst x) \<longrightarrow> buf = []"
      and 4: "(\<exists>x \<in> set rest. is_blob_path (fst x)) \<longrightarrow> \<not> b"
      and 5: "case r of
             Inl e \<Rightarrow> dirty s' = dirty s0 \<and> \<not> b \<and>
               (\<forall>x \<in> set rest. is_contents_put (fst x) \<longrightarrow> \<not> snd x)
           | Inr _ \<Rightarrow> \<not> dirty s' \<and>
               (\<exists>x \<in> set ((CreateOrUpdateFileContents p, b) # rest). is_push (fst x) \<and> snd x)"
      unfolding push_outcome_def by auto
    from 1 c c0 have n: "new = (CreateOrUpdateFileContents p, b) # rest"
      by simp
    from 5 d0 have "case r of
             Inl e \<Rightarrow> dirty s' = dirty s \<and> \<not> b \<and>
               (\<forall>x \<in> set rest. is_contents_put (fst x) \<longrightarrow> \<not> snd x)
           | Inr _ \<Rightarrow> \<not> dirty s' \<and>
               (\<exists>x \<in> set ((CreateOrUpdateFileContents p, b) # rest). is_push (fst x) \<and> snd x)"
      by (simp split: sum.splits)
    with n 3 4 show ?thesis by blast
  qed
  from o consider
      (f) e where "fst (getRemoteSha s) = Inl e" "r = Inl e" "new = []" "dirty s' = dirty s"
    | (r) "fst (getRemoteSha s) = Inr None" "buf = []" "r = Inr ()" "new = []" "\<not> dirty s'"
    | (c) "fst (getRemoteSha s) = Inr None" "buf \<noteq> []"
        "push_outcome \<lparr>p_message = ''Create data/app.db from local'', p_content = Base64 buf,
           p_sha = None\<rparr> buf s0 (r, s')"
    | (u) sha where "fst (getRemoteSha s) = Inr (Some sha)"
        "push_outcome \<lparr>p_message = ''Sync data/app.db'', p_content = Base64 buf,
           p_sha = Some sha\<rparr> buf s0 (r, s')"
    using g by auto
  then show ?thesis
  proof cases
    case f
    show ?thesis
      by (rule failed [of buf e s' b0]) (use Some sr i f in simp_all)
  next
    case r
    show ?thesis
      by (rule refused [of s' b0]) (use Some sr i r in simp_all)
  next
    case c
    from po [OF c(3)] obtain b rest where
      n: "new = (CreateOrUpdateFileContents
           \<lparr>p_message = ''Create data/app.db from local'', p_content = Base64 buf,
           p_sha = None\<rparr>, b) # rest"
      and 3: "\<forall>x \<in> set rest. is_blank (fst x) \<longrightarrow> buf = []"
      and 4: "(\<exists>x \<in> set rest. is_blob_path (fst x)) \<longrightarrow> \<not> b"
      and 5: "case r of
             Inl e \<Rightarrow> dirty s' = dirty s \<and> \<not> b \<and>
               (\<forall>x \<in> set rest. is_contents_put (fst x) \<longrightarrow> \<not> snd x)
           | Inr _ \<Rightarrow> \<not> dirty s' \<and>
               (\<exists>x \<in> set ((CreateOrUpdateFileContents
                 \<lparr>p_message = ''Create data/app.db from local'', p_content = Base64 buf,
                   p_sha = None\<rparr>, b) # rest). is_push (fst x) \<and> snd x)"
      by blast
    show ?thesis
      by (rule pushed [OF Some sr _ _ _ 3 4 5]) (use i n c in simp_all)
  next
    case u
    from po [OF u(2)] obtain b rest where
      n: "new = (CreateOrUpdateFileContents
           \<lparr>p_message = ''Sync data/app.db'', p_content = Base64 buf,
           p_sha = Some sha\<rparr>, b) # rest"
      and 3: "\<forall>x \<in> set rest. is_blank (fst x) \<longrightarrow> buf = []"
      and 4: "(\<exists>x \<in> set rest. is_blob_path (fst x)) \<longrightarrow> \<not> b"
      and 5: "case r of
             Inl e \<Rightarrow> dirty s' = dirty s \<and> \<not> b \<and>
               (\<forall>x \<in> set rest. is_contents_put (fst x) \<longrightarrow> \<not> snd x)
           | Inr _ \<Rightarrow> \<not> dirty s' \<and>
               (\<exists>x \<in> set ((CreateOrUpdateFileContents
                 \<lparr>p_message = ''Sync data/app.db'', p_content = Base64 buf,
                   p_sha = Some sha\<rparr>, b) # rest). is_push (fst x) \<and> snd x)"
      by blast
    show ?thesis
      by (rule pushed [OF Some sr _ _ _ 3 4 5]) (use i n u in simp_all)
  qed
qed

section \<open>Facts about the scheduler\<close>

lemma markDataDirty_twice: "markDataDirty (markDataDirty s) = markDataDirty s"
  by (simp add: markDataDirty_def Let_def)

lemma run_Cons: "run e (ev # evs) = run (step e ev) evs"
  by (simp add: run_def)

lemma run_Nil: "run e [] = e"
  by (simp add: run_def)

lemma run_append: "run e (xs @ ys) = run (run e xs) ys"
  by (simp add: run_def)

lemma mark_burst:
  "run e (replicate (Suc n) MarkDirty) = e\<lparr>core := markDataDirty (core e)\<rparr>"
proof (induction n arbitrary: e)
  case 0
  show ?case by (simp add: run_def)
next
  case (Suc n)
  have "run e (replicate (Suc (Suc n)) MarkDirty) = run (step e MarkDirty) (replicate (Suc n) MarkDirty)"
    by (simp add: run_def)
  also have "\<dots> = (step e MarkDirty)\<lparr>core := markDataDirty (core (step e MarkDirty))\<rparr>"
    by (rule Suc.IH)
  finally show ?case by (simp add: markDataDirty_twice)
qed

lemma syncNow_rest_same_module: "same_module s (snd (syncNow_rest buf s))"
  using syncNow_rest_outcome [of buf s] by auto

lemma step_one_timer: "one_timer e \<Longrightarrow> one_timer (step e ev)"
proof (cases ev)
  case (Resume i)
  assume "one_timer e"
  then show ?thesis
    using syncNow_rest_same_module [of "core e" "inflight e ! i"] Resume
    by (simp add: one_timer_def same_module_def)
qed (auto simp: one_timer_def markDataDirty_def start_push_def Let_def split: option.splits)

lemma run_one_timer: "one_timer e \<Longrightarrow> one_timer (run e evs)"
  by (induction evs arbitrary: e) (simp_all add: run_Nil run_Cons step_one_timer)

lemma step_starts_at_most_one: "length (inflight (step e ev)) \<le> Suc (length (inflight e))"
  by (cases ev) (auto simp: start_push_def Let_def split: option.splits)

section \<open>Facts about the dirty flag\<close>

lemma syncNow_rest_dirty:
  "dirty (snd (syncNow_rest buf s)) = (dirty s \<and> fst (syncNow_rest buf s) \<noteq> Inr ())"
proof -
  obtain r0 s0 where g: "getRemoteSha s = (r0, s0)"
    by (cases "getRemoteSha s")
  have d0: "dirty s0 = dirty s"
    using getRemoteSha_effect [of s] g by simp
  from syncNow_rest_outcome [of buf s] obtain r s' b0 new where
    run: "syncNow_rest buf s = (r, s')"
    and o: "(\<exists>e. fst (getRemoteSha s) = Inl e \<and> r = Inl e \<and> new = [] \<and> dirty s' = dirty s) \<or>
      (fst (getRemoteSha s) = Inr None \<and> buf = [] \<and> r = Inr () \<and> new = [] \<and> \<not> dirty s') \<or>
      (fst (getRemoteSha s) = Inr None \<and> buf \<noteq> [] \<and>
       push_outcome \<lparr>p_message = ''Create data/app.db from local'', p_content = Base64 buf,
         p_sha = None\<rparr> buf (snd (getRemoteSha s)) (r, s')) \<or>
      (\<exists>sha. fst (getRemoteSha s) = Inr (Some sha) \<and>
       push_outcome \<lparr>p_message = ''Sync data/app.db'', p_content = Base64 buf,
         p_sha = Some sha\<rparr> buf (snd (getRemoteSha s)) (r, s'))"
    by blast
  have po: "dirty s' = (dirty s \<and> r \<noteq> Inr ())" if "push_outcome p buf s0 (r, s')" for p
    using that d0 by (cases r) (auto simp: push_outcome_def)
  from o g po have "dirty s' = (dirty s \<and> r \<noteq> Inr ())"
    by auto
  with run show ?thesis by simp
qed

lemma syncNow_rest_settled:
  "fst (syncNow_rest buf s) = Inr () \<longrightarrow>
     (\<exists>c \<in> set (issued s (snd (syncNow_rest buf s))). is_push (fst c) \<and> snd c) \<or>
     (buf = [] \<and> fst (getRemoteSha s) = Inr None)"
proof -
  obtain r0 s0 where g: "getRemoteSha s = (r0, s0)"
    by (cases "getRemoteSha s")
  have c0: "calls s0 = calls s @ [(GetContent, fulfilled (getContent_replies s 0))]"
    using getRemoteSha_effect [of s] g by simp
  from syncNow_rest_outcome [of buf s] obtain r s' b0 new where
    run: "syncNow_rest buf s = (r, s')"
    and o: "(\<exists>e. fst (getRemoteSha s) = Inl e \<and> r = Inl e \<and> new = [] \<and> dirty s' = dirty s) \<or>
      (fst (getRemoteSha s) = Inr None \<and> buf = [] \<and> r = Inr () \<and> new = [] \<and> \<not> dirty s') \<or>
      (fst (getRemoteSha s) = Inr None \<and> buf \<noteq> [] \<and>
       push_outcome \<lparr>p_message = ''Create data/app.db from local'', p_content = Base64 buf,
         p_sha = None\<rparr> buf (snd (getRemoteSha s)) (r, s')) \<or>
      (\<exists>sha. fst (getRemoteSha s) = Inr (Some sha) \<and>
       push_outcome \<lparr>p_message = ''Sync data/app.db'', p_content = Base64 buf,
         p_sha = Some sha\<rparr> buf (snd (getRemoteSha s)) (r, s'))"
    by blast
  have po: "\<exists>c \<in> set (issued s s'). is_push (fst c) \<and> snd c"
    if "push_outcome p buf s0 (r, s')" and "r = Inr ()" for p
  proof -
    from that obtain b rest where
      1: "calls s' = calls s0 @ (CreateOrUpdateFileContents p, b) # rest"
      and 2: "\<exists>x \<in> set ((CreateOrUpdateFileContents p, b) # rest). is_push (fst x) \<and> snd x"
      unfolding push_outcome_def by auto
    from 1 c0 have "issued s s' =
        (GetContent, fulfilled (getContent_replies s 0)) # (CreateOrUpdateFileContents p, b) # rest"
      by (simp add: issued_def)
    with 2 show ?thesis by auto
  qed
  from o g po run show ?thesis
    by auto
qed

lemma syncNow_rest_contents_fulfilled:
  "(\<exists>c \<in> set (issued s (snd (syncNow_rest buf s))). is_contents_put (fst c) \<and> snd c) \<longrightarrow>
     fst (syncNow_rest buf s) = Inr ()"
proof -
  obtain r0 s0 where g: "getRemoteSha s = (r0, s0)"
    by (cases "getRemoteSha s")
  have c0: "calls s0 = calls s @ [(GetContent, fulfilled (getContent_replies s 0))]"
    using getRemoteSha_effect [of s] g by simp
  from syncNow_rest_outcome [of buf s] obtain r s' b0 new where
    run: "syncNow_rest buf s = (r, s')" and c: "calls s' = calls s @ (GetContent, b0) # new"
    and o: "(\<exists>e. fst (getRemoteSha s) = Inl e \<and> r = Inl e \<and> new = [] \<and> dirty s' = dirty s) \<or>
      (fst (getRemoteSha s) = Inr None \<and> buf = [] \<and> r = Inr () \<and> new = [] \<and> \<not> dirty s') \<or>
      (fst (getRemoteSha s) = Inr None \<and> buf \<noteq> [] \<and>
       push_outcome \<lparr>p_message = ''Create data/app.db from local'', p_content = Base64 buf,
         p_sha = None\<rparr> buf (snd (getRemoteSha s)) (r, s')) \<or>
      (\<exists>sha. fst (getRemoteSha s) = Inr (Some sha) \<and>
       push_outcome \<lparr>p_message = ''Sync data/app.db'', p_content = Base64 buf,
         p_sha = Some sha\<rparr> buf (snd (getRemoteSha s)) (r, s'))"
    by blast
  have i: "issued s s' = (GetContent, b0) # new"
    using c by (simp add: issued_def)
  have po: "r = Inr ()"
    if "push_outcome p buf s0 (r, s')"
      and "\<exists>c \<in> set (issued s s'). is_contents_put (fst c) \<and> snd c" for p
  proof (cases r)
    case (Inr u)
    then show ?thesis by simp
  next
    case (Inl e)
    with that(1) obtain b rest where
      1: "calls s' = calls s0 @ (CreateOrUpdateFileContents p, b) # rest"
      and 2: "\<not> b" and 3: "\<forall>x \<in> set rest. is_contents_put (fst x) \<longrightarrow> \<not> snd x"
      unfolding push_outcome_def by auto
    from 1 c0 have "issued s s' =
        (GetContent, fulfilled (getContent_replies s 0)) # (CreateOrUpdateFileContents p, b) # rest"
      by (simp add: issued_def)
    with 2 3 that(2) show ?thesis by auto
  qed
  show ?thesis
  proof
    assume a: "\<exists>c \<in> set (issued s (snd (syncNow_rest buf s))). is_contents_put (fst c) \<and> snd c"
    with run have a': "\<exists>c \<in> set (issued s s'). is_contents_put (fst c) \<and> snd c"
      by simp
    from o g po a' i have "r = Inr ()"
      by auto
    with run show "fst (syncNow_rest buf s) = Inr ()" by simp
  qed
qed

lemma track_fst: "fst (foldl track (e, owed) evs) = run e evs"
proof (induction evs arbitrary: e owed)
  case Nil
  show ?case by (simp add: run_def)
next
  case (Cons ev evs)
  obtain e' owed' where t: "track (e, owed) ev = (e', owed')"
    by (cases "track (e, owed) ev")
  then have "e' = step e ev"
    by (cases ev) auto
  with Cons.IH [of e' owed'] t show ?case
    by (simp add: run_def)
qed

lemma track_dirty:
  "dirty (core e) = owed \<Longrightarrow> dirty (core (step e ev)) = snd (track (e, owed) ev)"
proof (cases ev)
  case MarkDirty
  then show ?thesis by (simp add: markDataDirty_def Let_def)
next
  case TimerFires
  assume "dirty (core e) = owed"
  with TimerFires show ?thesis
    by (simp add: start_push_def Let_def split: option.splits)
next
  case Tick
  assume "dirty (core e) = owed"
  with Tick show ?thesis
    by (simp add: start_push_def split: option.splits)
next
  case Shutdown
  assume "dirty (core e) = owed"
  with Shutdown show ?thesis
    by (simp add: start_push_def split: option.splits)
next
  case (FlushNow force)
  assume "dirty (core e) = owed"
  with FlushNow show ?thesis
    by (simp add: start_push_def split: option.splits)
next
  case (Resume i)
  assume "dirty (core e) = owed"
  with Resume show ?thesis
    by (simp add: syncNow_rest_dirty)
qed

lemma run_dirty:
  "dirty (core e) = owed \<Longrightarrow> dirty (core (run e evs)) = snd (foldl track (e, owed) evs)"
proof (induction evs arbitrary: e owed)
  case Nil
  then show ?case by (simp add: run_def)
next
  case (Cons ev evs)
  obtain e' owed' where t: "track (e, owed) ev = (e', owed')"
    by (cases "track (e, owed) ev")
  then have e': "e' = step e ev"
    by (cases ev) auto
  from track_dirty [OF Cons.prems, of ev] t e' have "dirty (core e') = owed'"
    by simp
  from Cons.IH [OF this] t e' show ?case
    by (simp add: run_def)
qed

section \<open>Facts about the debounce window\<close>

lemma step_window:
  assumes "ev \<noteq> TimerFires"
  shows "timer (core (step e ev)) = (timer (core e) \<or> ev = MarkDirty) \<and>
         timeouts (core (step e ev)) =
           (if \<not> timer (core e) \<and> ev = MarkDirty then Suc (timeouts (core e))
            else timeouts (core e))"
proof (cases ev)
  case (Resume i)
  then show ?thesis
    using syncNow_rest_same_module [of "core e" "inflight e ! i"]
    by (simp add: same_module_def)
qed (use assms in \<open>auto simp: markDataDirty_def start_push_def Let_def split: option.splits\<close>)

lemma run_window:
  assumes "TimerFires \<notin> set evs"
  shows "timer (core (run e evs)) = (timer (core e) \<or> MarkDirty \<in> set evs) \<and>
         timeouts (core (run e evs)) =
           (if \<not> timer (core e) \<and> MarkDirty \<in> set evs then Suc (timeouts (core e))
            else timeouts (core e))"
  using assms
proof (induction evs arbitrary: e)
  case Nil
  show ?case by (simp add: run_Nil)
next
  case (Cons ev evs)
  then have ne: "ev \<noteq> TimerFires" and rest: "TimerFires \<notin> set evs"
    by auto
  from Cons.IH [OF rest, of "step e ev"] step_window [OF ne, of e] show ?case
    by (auto simp: run_Cons)
qed

section \<open>Unfolding the example states\<close>

lemmas fixture_defs = loaded_def replies_from_def http_error_def not_found_def sha_missing_422_def
  sha_wasnt_supplied_def is_sha_missing_def

section \<open>Start-up\<close>

text \<open>
  C1. Whenever the remote file exists, start-up is to leave the local file with the
  remote content and to write nothing to the store; the header of the file calls this its
  safety rule. The code breaks it. The remote file exists, with tag \<^verbatim>\<open>s1\<close>, but the
  answer to the blob request has none of the three shapes \<^verbatim>\<open>fetchRemoteDbBuffer\<close>
  knows, or the blob request is rejected with status 404. The error has no status, or
  status 404, so the handler in \<^verbatim>\<open>initDataSync\<close> absorbs it and start-up goes on as if
  the remote file were missing: it pushes the local file; the store asks for the tag,
  \<^verbatim>\<open>putFileContents\<close> fetches it, and the existing remote file is overwritten. The
  local file keeps its own content.
\<close>

theorem init_overwrites_existing_remote:
  "fst (getRemoteSha remote_s1_blob_unreadable) = Inr (Some ''s1'') \<and>
   fst (fetchRemoteDbBuffer remote_s1_blob_unreadable) =
     Inl (Error ''Unable to fetch DB blob content'') \<and>
   fst (initDataSync remote_s1_blob_unreadable) = Inr () \<and>
   localFile (snd (initDataSync remote_s1_blob_unreadable)) = Some ''ABC'' \<and>
   calls (snd (initDataSync remote_s1_blob_unreadable)) =
     [(GetContent, True), (GetBlob ''s1'', True),
      (CreateOrUpdateFileContents
         \<lparr>p_message = ''Initialize data/app.db from local'', p_content = Base64 ''ABC'',
           p_sha = None\<rparr>, False),
      (GetContent, True),
      (CreateOrUpdateFileContents
         \<lparr>p_message = ''Initialize data/app.db from local'', p_content = Base64 ''ABC'',
           p_sha = Some ''s1''\<rparr>, True)] \<and>
   fst (getRemoteSha remote_s1_blob_not_found) = Inr (Some ''s1'') \<and>
   fst (initDataSync remote_s1_blob_not_found) = Inr () \<and>
   localFile (snd (initDataSync remote_s1_blob_not_found)) = Some ''ABC'' \<and>
   calls (snd (initDataSync remote_s1_blob_not_found)) =
     [(GetContent, True), (GetBlob ''s1'', False),
      (CreateOrUpdateFileContents
         \<lparr>p_message = ''Initialize data/app.db from local'', p_content = Base64 ''ABC'',
           p_sha = None\<rparr>, False),
      (GetContent, True),
      (CreateOrUpdateFileContents
         \<lparr>p_message = ''Initialize data/app.db from local'', p_content = Base64 ''ABC'',
           p_sha = Some ''s1''\<rparr>, True)]"
  by (simp add: remote_s1_blob_unreadable_def remote_s1_blob_not_found_def fixture_defs
      SIZE_WARN_LIMIT_def initDataSync_def init_create_remote_def fetchRemoteDbBuffer_def
      getRemoteSha_def putFileContents_def set_lastKnownSha_def io_defs api_defs or_null_def
      truthy_def Error_def Let_def)

text \<open>
  What does hold: when the read of the remote file at start-up gives its content and its
  version tag, \<^verbatim>\<open>initDataSync\<close> returns normally, the local file holds the fetched
  content, \<^verbatim>\<open>lastKnownSha\<close> is the fetched tag, and the only requests sent are the two
  reads.
\<close>

lemma init_remote_wins:
  assumes "fst (fetchRemoteDbBuffer s) = Inr (Some (buf, sha))"
  shows "fst (initDataSync s) = Inr () \<and>
         localFile (snd (initDataSync s)) = Some buf \<and>
         lastKnownSha (snd (initDataSync s)) = Some sha \<and>
         map fst (issued s (snd (initDataSync s))) = [GetContent, GetBlob sha] \<and>
         (\<forall>c \<in> set (issued s (snd (initDataSync s))). \<not> is_write (fst c))"
proof -
  from fetch_Some [OF assms] obtain b1 b2 where
    f: "fetchRemoteDbBuffer s = (Inr (Some (buf, sha)),
     s\<lparr>getContent_replies := (\<lambda>n. getContent_replies s (Suc n)),
       getBlob_replies := (\<lambda>n. getBlob_replies s (Suc n)),
       calls := calls s @ [(GetContent, b1), (GetBlob sha, b2)]\<rparr>)" by blast
  show ?thesis
    by (simp add: initDataSync_def io_defs f writeFileSync_def set_lastKnownSha_def issued_def)
qed

lemma init_remote_wins_example:
  "fst (fetchRemoteDbBuffer remote_XYZ_local_ABC) = Inr (Some (''XYZ'', ''s1'')) \<and>
   fst (initDataSync remote_XYZ_local_ABC) = Inr () \<and>
   localFile (snd (initDataSync remote_XYZ_local_ABC)) = Some ''XYZ'' \<and>
   lastKnownSha (snd (initDataSync remote_XYZ_local_ABC)) = Some ''s1'' \<and>
   map fst (calls (snd (initDataSync remote_XYZ_local_ABC))) = [GetContent, GetBlob ''s1'']"
proof -
  have h: "fst (fetchRemoteDbBuffer remote_XYZ_local_ABC) = Inr (Some (''XYZ'', ''s1''))"
    by (simp add: remote_XYZ_local_ABC_def loaded_def replies_from_def
        fetchRemoteDbBuffer_def getRemoteSha_def io_defs api_defs or_null_def)
  have c: "calls remote_XYZ_local_ABC = []"
    by (simp add: remote_XYZ_local_ABC_def loaded_def)
  show ?thesis
    using init_remote_wins [OF h] h c by (simp add: issued_def)
qed

section \<open>Zero-length content\<close>

text \<open>
  C2, as stated, fails: with the local file empty and the remote file present, a flush
  sends the conditional update with zero-length content, and the store accepts it.
\<close>

theorem blank_update_replaces_existing_remote:
  "localFile dirty_empty_local_remote_s1 = Some [] \<and>
   fst (getRemoteSha dirty_empty_local_remote_s1) = Inr (Some ''s1'') \<and>
   fst (syncNow False dirty_empty_local_remote_s1) = Inr () \<and>
   calls (snd (syncNow False dirty_empty_local_remote_s1)) =
     [(GetContent, True),
      (CreateOrUpdateFileContents
         \<lparr>p_message = ''Sync data/app.db'', p_content = Base64 [], p_sha = Some ''s1''\<rparr>, True)] \<and>
   is_blank (CreateOrUpdateFileContents
         \<lparr>p_message = ''Sync data/app.db'', p_content = Base64 [], p_sha = Some ''s1''\<rparr>)"
  by (simp add: dirty_empty_local_remote_s1_def fixture_defs syncNow_def syncNow_begin_def
      syncNow_rest_def sync_update_def putFileContents_def getRemoteSha_def put_done_eq
      io_defs api_defs or_null_def truthy_def Let_def)

text \<open>
  C2, amended. \<^verbatim>\<open>initDataSync\<close> sends no request with zero-length content. A flush
  sends one only when the local file is empty and the version-tag fetch it starts with
  has returned a tag. Its first write is then the conditional update that carries the
  empty content and that tag, and a request of the blob path, which carries no tag,
  follows only after that update was rejected.
\<close>

theorem blank_content_only_after_tag_found:
  "(\<forall>c \<in> set (issued s (snd (initDataSync s))). \<not> is_blank (fst c)) \<and>
   ((\<exists>c \<in> set (issued s (snd (syncNow force s))). is_blank (fst c)) \<longrightarrow>
      localFile s = Some [] \<and>
      (\<exists>sha b0 b rest.
         fst (getRemoteSha s) = Inr (Some sha) \<and>
         issued s (snd (syncNow force s)) =
           (GetContent, b0) #
           (CreateOrUpdateFileContents
              \<lparr>p_message = ''Sync data/app.db'', p_content = Base64 [], p_sha = Some sha\<rparr>, b) #
           rest \<and>
         ((\<exists>x \<in> set rest. is_blob_path (fst x)) \<longrightarrow> \<not> b)))"
proof
  from init_outcome [of s] obtain r s' new where
    "initDataSync s = (r, s')" "calls s' = calls s @ new" "\<forall>x \<in> set new. \<not> is_blank (fst x)"
    by blast
  then show "\<forall>c \<in> set (issued s (snd (initDataSync s))). \<not> is_blank (fst c)"
    by (simp add: issued_def)
next
  show "(\<exists>c \<in> set (issued s (snd (syncNow force s))). is_blank (fst c)) \<longrightarrow>
      localFile s = Some [] \<and>
      (\<exists>sha b0 b rest.
         fst (getRemoteSha s) = Inr (Some sha) \<and>
         issued s (snd (syncNow force s)) =
           (GetContent, b0) #
           (CreateOrUpdateFileContents
              \<lparr>p_message = ''Sync data/app.db'', p_content = Base64 [], p_sha = Some sha\<rparr>, b) #
           rest \<and>
         ((\<exists>x \<in> set rest. is_blob_path (fst x)) \<longrightarrow> \<not> b))"
  proof (cases rule: syncNow_cases [of force s])
    case skipped
    then show ?thesis by (simp add: issued_def)
  next
    case (failed buf e s' b0)
    then show ?thesis by simp
  next
    case (refused s' b0)
    then show ?thesis by simp
  next
    case (pushed buf r s' b0 p b rest)
    show ?thesis
    proof
      assume "\<exists>c \<in> set (issued s (snd (syncNow force s))). is_blank (fst c)"
      with pushed(2,3,4,6) have e: "buf = []"
        by auto
      with pushed(1) have l: "localFile s = Some []"
        by (simp add: syncNow_begin_Some)
      from e pushed(5) obtain sha where g: "fst (getRemoteSha s) = Inr (Some sha)"
        and p: "p = \<lparr>p_message = ''Sync data/app.db'', p_content = Base64 [], p_sha = Some sha\<rparr>"
        by auto
      have "issued s (snd (syncNow force s)) =
           (GetContent, b0) #
           (CreateOrUpdateFileContents
              \<lparr>p_message = ''Sync data/app.db'', p_content = Base64 [], p_sha = Some sha\<rparr>, b) #
           rest"
        using pushed(2,3) p by simp
      with l g pushed(7) show "localFile s = Some [] \<and>
      (\<exists>sha b0 b rest.
         fst (getRemoteSha s) = Inr (Some sha) \<and>
         issued s (snd (syncNow force s)) =
           (GetContent, b0) #
           (CreateOrUpdateFileContents
              \<lparr>p_message = ''Sync data/app.db'', p_content = Base64 [], p_sha = Some sha\<rparr>, b) #
           rest \<and>
         ((\<exists>x \<in> set rest. is_blob_path (fst x)) \<longrightarrow> \<not> b))"
        by blast
    qed
  qed
qed

theorem blank_content_only_after_tag_found_witness:
  "list_all (\<lambda>c. \<not> is_blank (fst c)) (calls (snd (initDataSync seed_meets_existing))) \<and>
   is_blank (fst (calls (snd (syncNow False dirty_empty_local_remote_s1)) ! 1)) \<and>
   localFile dirty_empty_local_remote_s1 = Some [] \<and>
   (\<exists>sha b0 b rest.
      fst (getRemoteSha dirty_empty_local_remote_s1) = Inr (Some sha) \<and>
      calls (snd (syncNow False dirty_empty_local_remote_s1)) =
        (GetContent, b0) #
        (CreateOrUpdateFileContents
           \<lparr>p_message = ''Sync data/app.db'', p_content = Base64 [], p_sha = Some sha\<rparr>, b) #
        rest \<and>
      ((\<exists>x \<in> set rest. is_blob_path (fst x)) \<longrightarrow> \<not> b))"
proof -
  have c: "calls seed_meets_existing = []" "calls dirty_empty_local_remote_s1 = []"
    by (simp_all add: seed_meets_existing_def dirty_empty_local_remote_s1_def loaded_def)
  have i: "issued dirty_empty_local_remote_s1 (snd (syncNow False dirty_empty_local_remote_s1)) =
     [(GetContent, True),
      (CreateOrUpdateFileContents
         \<lparr>p_message = ''Sync data/app.db'', p_content = Base64 [], p_sha = Some ''s1''\<rparr>, True)]"
    by (simp add: dirty_empty_local_remote_s1_def fixture_defs syncNow_def syncNow_begin_def
      syncNow_rest_def sync_update_def putFileContents_def getRemoteSha_def put_done_eq
      io_defs api_defs or_null_def truthy_def Let_def issued_def)
  then have e: "\<exists>c \<in> set (issued dirty_empty_local_remote_s1
      (snd (syncNow False dirty_empty_local_remote_s1))). is_blank (fst c)"
    by simp
  have j: "calls (snd (syncNow False dirty_empty_local_remote_s1)) =
      issued dirty_empty_local_remote_s1 (snd (syncNow False dirty_empty_local_remote_s1))"
    by (simp add: issued_def c)
  from blank_content_only_after_tag_found [of seed_meets_existing False]
  have a: "list_all (\<lambda>c. \<not> is_blank (fst c))
      (issued seed_meets_existing (snd (initDataSync seed_meets_existing)))"
    by (simp add: list_all_iff)
  from blank_content_only_after_tag_found [of dirty_empty_local_remote_s1 False] e
  have b: "localFile dirty_empty_local_remote_s1 = Some [] \<and>
      (\<exists>sha b0 b rest.
         fst (getRemoteSha dirty_empty_local_remote_s1) = Inr (Some sha) \<and>
         issued dirty_empty_local_remote_s1 (snd (syncNow False dirty_empty_local_remote_s1)) =
           (GetContent, b0) #
           (CreateOrUpdateFileContents
              \<lparr>p_message = ''Sync data/app.db'', p_content = Base64 [], p_sha = Some sha\<rparr>, b) #
           rest \<and>
         ((\<exists>x \<in> set rest. is_blob_path (fst x)) \<longrightarrow> \<not> b))"
    by blast
  have k: "is_blank (fst (calls (snd (syncNow False dirty_empty_local_remote_s1)) ! 1))"
    unfolding j i by simp
  from a b k show ?thesis
    unfolding j by (simp add: issued_def c)
qed

section \<open>Empty buffers\<close>

text \<open>
  C3. A flush that gets past the dirty check (dirty, or forced) with an empty local file.
  When the version-tag fetch finds no remote file, the only request sent is that fetch,
  nothing is written, and the call returns normally. When the fetch returns a tag, the
  next request is the ordinary conditional update, carrying the empty content and that
  tag; when the store fulfils it, the call returns normally with \<^verbatim>\<open>dirty\<close> cleared
  and \<^verbatim>\<open>lastKnownSha\<close> taken from the answer.
\<close>

theorem empty_buffer_push_rule:
  assumes "dirty s \<or> force" and "localFile s = Some []"
  shows "(fst (getRemoteSha s) = Inr None \<longrightarrow>
            fst (syncNow force s) = Inr () \<and>
            map fst (issued s (snd (syncNow force s))) = [GetContent] \<and>
            (\<forall>c \<in> set (issued s (snd (syncNow force s))). \<not> is_write (fst c))) \<and>
         (\<forall>sha. fst (getRemoteSha s) = Inr (Some sha) \<longrightarrow>
            take 2 (map fst (issued s (snd (syncNow force s)))) =
              [GetContent,
               CreateOrUpdateFileContents
                 \<lparr>p_message = ''Sync data/app.db'', p_content = Base64 [], p_sha = Some sha\<rparr>] \<and>
            (\<forall>t. put_replies s 0 = Inr t \<longrightarrow>
               fst (syncNow force s) = Inr () \<and>
               \<not> dirty (snd (syncNow force s)) \<and>
               lastKnownSha (snd (syncNow force s)) = or_null t \<and>
               map fst (issued s (snd (syncNow force s))) =
                 [GetContent,
                  CreateOrUpdateFileContents
                    \<lparr>p_message = ''Sync data/app.db'', p_content = Base64 [], p_sha = Some sha\<rparr>]))"
proof -
  from assms have b: "syncNow_begin force s = Some []"
    by (simp add: syncNow_begin_Some)
  have absent: "fst (syncNow force s) = Inr () \<and>
            map fst (issued s (snd (syncNow force s))) = [GetContent] \<and>
            (\<forall>c \<in> set (issued s (snd (syncNow force s))). \<not> is_write (fst c))"
    if "fst (getRemoteSha s) = Inr None"
    using b that by (cases rule: syncNow_cases [of force s]) auto
  have first: "take 2 (map fst (issued s (snd (syncNow force s)))) =
              [GetContent,
               CreateOrUpdateFileContents
                 \<lparr>p_message = ''Sync data/app.db'', p_content = Base64 [], p_sha = Some sha\<rparr>]"
    if "fst (getRemoteSha s) = Inr (Some sha)" for sha
    using b that by (cases rule: syncNow_cases [of force s]) auto
  have fulfilled: "fst (syncNow force s) = Inr () \<and>
               \<not> dirty (snd (syncNow force s)) \<and>
               lastKnownSha (snd (syncNow force s)) = or_null t \<and>
               map fst (issued s (snd (syncNow force s))) =
                 [GetContent,
                  CreateOrUpdateFileContents
                    \<lparr>p_message = ''Sync data/app.db'', p_content = Base64 [], p_sha = Some sha\<rparr>]"
    if g: "fst (getRemoteSha s) = Inr (Some sha)" and p: "put_replies s 0 = Inr t" for sha t
  proof -
    have t: "truthy (Some sha)"
      using getRemoteSha_normal [OF g] by simp
    define s0 where "s0 = s\<lparr>getContent_replies := (\<lambda>n. getContent_replies s (Suc n)),
       calls := calls s @ [(GetContent, fulfilled (getContent_replies s 0))]\<rparr>"
    have ge: "getRemoteSha s = (Inr (Some sha), s0)"
      using g getRemoteSha_effect [of s] unfolding s0_def by (metis prod.collapse)
    have "syncNow force s = sync_update [] (Some sha) s0"
      using t by (simp add: syncNow_runs [OF b] syncNow_rest_def await_def ge)
    also have "\<dots> = (Inr (), s0\<lparr>put_replies := (\<lambda>n. put_replies s0 (Suc n)),
         calls := calls s0 @ [(CreateOrUpdateFileContents
           \<lparr>p_message = ''Sync data/app.db'', p_content = Base64 [], p_sha = Some sha\<rparr>, True)],
         lastKnownSha := or_null t, dirty := False\<rparr>)"
      using t p
      by (simp add: sync_update_def putFileContents_def await_def try_catch_def return_def
          put_done_eq octokit_createOrUpdateFileContents_def fulfilled_def Let_def s0_def)
    finally show ?thesis
      by (simp add: issued_def s0_def)
  qed
  from absent first fulfilled show ?thesis by blast
qed

theorem empty_buffer_push_rule_witness:
  "fst (getRemoteSha dirty_empty_local_remote_absent) = Inr None \<and>
   fst (syncNow True dirty_empty_local_remote_absent) = Inr () \<and>
   map fst (calls (snd (syncNow True dirty_empty_local_remote_absent))) = [GetContent] \<and>
   fst (getRemoteSha dirty_empty_local_remote_s1) = Inr (Some ''s1'') \<and>
   fst (syncNow False dirty_empty_local_remote_s1) = Inr () \<and>
   lastKnownSha (snd (syncNow False dirty_empty_local_remote_s1)) = Some ''s2'' \<and>
   map fst (calls (snd (syncNow False dirty_empty_local_remote_s1))) =
     [GetContent,
      CreateOrUpdateFileContents
        \<lparr>p_message = ''Sync data/app.db'', p_content = Base64 [], p_sha = Some ''s1''\<rparr>]"
proof -
  have g1: "fst (getRemoteSha dirty_empty_local_remote_absent) = Inr None"
    by (simp add: getRemoteSha_result dirty_empty_local_remote_absent_def fixture_defs)
  have g2: "fst (getRemoteSha dirty_empty_local_remote_s1) = Inr (Some ''s1'')"
    by (simp add: getRemoteSha_result dirty_empty_local_remote_s1_def fixture_defs or_null_def)
  have c: "calls dirty_empty_local_remote_absent = []" "calls dirty_empty_local_remote_s1 = []"
    by (simp_all add: dirty_empty_local_remote_absent_def dirty_empty_local_remote_s1_def loaded_def)
  have a: "fst (syncNow True dirty_empty_local_remote_absent) = Inr () \<and>
     map fst (issued dirty_empty_local_remote_absent
       (snd (syncNow True dirty_empty_local_remote_absent))) = [GetContent]"
    using empty_buffer_push_rule [of dirty_empty_local_remote_absent True] g1
    by (simp add: dirty_empty_local_remote_absent_def loaded_def)
  have b: "fst (syncNow False dirty_empty_local_remote_s1) = Inr () \<and>
   lastKnownSha (snd (syncNow False dirty_empty_local_remote_s1)) = Some ''s2'' \<and>
   map fst (issued dirty_empty_local_remote_s1 (snd (syncNow False dirty_empty_local_remote_s1))) =
     [GetContent,
      CreateOrUpdateFileContents
        \<lparr>p_message = ''Sync data/app.db'', p_content = Base64 [], p_sha = Some ''s1''\<rparr>]"
    using empty_buffer_push_rule [of dirty_empty_local_remote_s1 False] g2
    by (simp add: dirty_empty_local_remote_s1_def loaded_def replies_from_def or_null_def)
  from a b g1 g2 c show ?thesis by (simp add: issued_def)
qed

section \<open>Routing by size\<close>

text \<open>
  C4. A buffer above the limit of 90 MB is to be pushed through the blob path and not
  through the direct contents request; the header of the file says so of large files, and
  \<^verbatim>\<open>initDataSync\<close> does so. A flush does not: \<^verbatim>\<open>syncNow\<close> never looks at the size.
  With a local file of 94371841 bytes, one more than the limit, and the remote file
  absent, the write it sends is the direct contents request, and no request of the blob
  path follows.
\<close>

theorem flush_sends_large_buffer_directly:
  "SIZE_WARN_LIMIT < length (replicate 94371841 (CHR ''a'')) \<and>
   localFile dirty_large_local_remote_absent = Some (replicate 94371841 (CHR ''a'')) \<and>
   fst (syncNow False dirty_large_local_remote_absent) = Inr () \<and>
   calls (snd (syncNow False dirty_large_local_remote_absent)) =
     [(GetContent, False),
      (CreateOrUpdateFileContents
         \<lparr>p_message = ''Create data/app.db from local'',
           p_content = Base64 (replicate 94371841 (CHR ''a'')), p_sha = None\<rparr>, True)]"
  by (simp add: dirty_large_local_remote_absent_def fixture_defs SIZE_WARN_LIMIT_def
      syncNow_def syncNow_begin_def syncNow_rest_def sync_create_def putFileContents_def
      getRemoteSha_def put_done_eq io_defs api_defs or_null_def truthy_def Let_def)

text \<open>
  The routing the code does have. At start-up, when the read of the remote file finds
  nothing and the local file has content, \<^verbatim>\<open>initDataSync\<close> writes a buffer of at most
  \<^verbatim>\<open>SIZE_WARN_LIMIT\<close> bytes through the direct contents request and sends no request of
  the blob path, and writes a larger buffer through the blob path, beginning with the
  blob itself, and sends no contents request. A flush sends the direct contents request
  first whatever the size, and a request of the blob path only after that first contents
  request was rejected.
\<close>

lemma push_routing:
  "(\<forall>buf. fst (fetchRemoteDbBuffer s) = Inr None \<and> localFile s = Some buf \<and> buf \<noteq> [] \<longrightarrow>
      (length buf \<le> SIZE_WARN_LIMIT \<longrightarrow>
         (\<exists>b rest. filter (is_write \<circ> fst) (issued s (snd (initDataSync s))) =
            (CreateOrUpdateFileContents
               \<lparr>p_message = ''Initialize data/app.db from local'', p_content = Base64 buf,
                 p_sha = None\<rparr>, b) # rest) \<and>
         (\<forall>x \<in> set (issued s (snd (initDataSync s))). \<not> is_blob_path (fst x))) \<and>
      (SIZE_WARN_LIMIT < length buf \<longrightarrow>
         (\<exists>b rest. filter (is_write \<circ> fst) (issued s (snd (initDataSync s))) =
            (CreateBlob (Base64 buf), b) # rest) \<and>
         (\<forall>x \<in> set (issued s (snd (initDataSync s))). \<not> is_contents_put (fst x)))) \<and>
   (filter (is_write \<circ> fst) (issued s (snd (syncNow force s))) = [] \<or>
    (\<exists>p b rest. filter (is_write \<circ> fst) (issued s (snd (syncNow force s))) =
         (CreateOrUpdateFileContents p, b) # rest \<and>
       ((\<exists>x \<in> set rest. is_blob_path (fst x)) \<longrightarrow> \<not> b)))"
proof
  from init_outcome [of s] obtain r s' new where
    i: "initDataSync s = (r, s')" and c: "calls s' = calls s @ new"
    and route: "\<forall>buf. fst (fetchRemoteDbBuffer s) = Inr None \<and> localFile s = Some buf \<and> buf \<noteq> [] \<longrightarrow>
        (length buf \<le> SIZE_WARN_LIMIT \<longrightarrow>
           (\<exists>b rest. filter (is_write \<circ> fst) new = (CreateOrUpdateFileContents
              \<lparr>p_message = ''Initialize data/app.db from local'', p_content = Base64 buf,
                p_sha = None\<rparr>, b) # rest) \<and>
           (\<forall>x \<in> set new. \<not> is_blob_path (fst x))) \<and>
        (SIZE_WARN_LIMIT < length buf \<longrightarrow>
           (\<exists>b rest. filter (is_write \<circ> fst) new = (CreateBlob (Base64 buf), b) # rest) \<and>
           (\<forall>x \<in> set new. \<not> is_contents_put (fst x)))"
    by blast
  have eq: "issued s (snd (initDataSync s)) = new"
    using i c by (simp add: issued_def)
  show "\<forall>buf. fst (fetchRemoteDbBuffer s) = Inr None \<and> localFile s = Some buf \<and> buf \<noteq> [] \<longrightarrow>
      (length buf \<le> SIZE_WARN_LIMIT \<longrightarrow>
         (\<exists>b rest. filter (is_write \<circ> fst) (issued s (snd (initDataSync s))) =
            (CreateOrUpdateFileContents
               \<lparr>p_message = ''Initialize data/app.db from local'', p_content = Base64 buf,
                 p_sha = None\<rparr>, b) # rest) \<and>
         (\<forall>x \<in> set (issued s (snd (initDataSync s))). \<not> is_blob_path (fst x))) \<and>
      (SIZE_WARN_LIMIT < length buf \<longrightarrow>
         (\<exists>b rest. filter (is_write \<circ> fst) (issued s (snd (initDataSync s))) =
            (CreateBlob (Base64 buf), b) # rest) \<and>
         (\<forall>x \<in> set (issued s (snd (initDataSync s))). \<not> is_contents_put (fst x)))"
    unfolding eq by (rule route)
next
  show "filter (is_write \<circ> fst) (issued s (snd (syncNow force s))) = [] \<or>
    (\<exists>p b rest. filter (is_write \<circ> fst) (issued s (snd (syncNow force s))) =
         (CreateOrUpdateFileContents p, b) # rest \<and>
       ((\<exists>x \<in> set rest. is_blob_path (fst x)) \<longrightarrow> \<not> b))"
  proof (cases rule: syncNow_cases [of force s])
    case skipped
    then show ?thesis by (simp add: issued_def)
  next
    case (failed buf e s' b0)
    then show ?thesis by simp
  next
    case (refused s' b0)
    then show ?thesis by simp
  next
    case (pushed buf r s' b0 p b rest)
    have "filter (is_write \<circ> fst) (issued s (snd (syncNow force s))) =
        (CreateOrUpdateFileContents p, b) # filter (is_write \<circ> fst) rest"
      using pushed(2,3) by simp
    moreover have "(\<exists>x \<in> set (filter (is_write \<circ> fst) rest). is_blob_path (fst x)) \<longrightarrow> \<not> b"
      using pushed(7) by fastforce
    ultimately show ?thesis by blast
  qed
qed

lemma push_routing_example:
  "fst (fetchRemoteDbBuffer seed_meets_existing) = Inr None \<and>
   (\<exists>b rest. filter (is_write \<circ> fst) (calls (snd (initDataSync seed_meets_existing))) =
      (CreateOrUpdateFileContents
         \<lparr>p_message = ''Initialize data/app.db from local'', p_content = Base64 ''ABC'',
           p_sha = None\<rparr>, b) # rest) \<and>
   list_all (\<lambda>x. \<not> is_blob_path (fst x)) (calls (snd (initDataSync seed_meets_existing))) \<and>
   fst (fetchRemoteDbBuffer large_local_remote_absent) = Inr None \<and>
   SIZE_WARN_LIMIT < length (replicate 94371841 (CHR ''a'')) \<and>
   (\<exists>b rest. filter (is_write \<circ> fst) (calls (snd (initDataSync large_local_remote_absent))) =
      (CreateBlob (Base64 (replicate 94371841 (CHR ''a''))), b) # rest) \<and>
   list_all (\<lambda>x. \<not> is_contents_put (fst x)) (calls (snd (initDataSync large_local_remote_absent))) \<and>
   (filter (is_write \<circ> fst) (calls (snd (syncNow False dirty_update_rejected_blob_ok))) = [] \<or>
    (\<exists>p b rest. filter (is_write \<circ> fst) (calls (snd (syncNow False dirty_update_rejected_blob_ok))) =
         (CreateOrUpdateFileContents p, b) # rest \<and>
       ((\<exists>x \<in> set rest. is_blob_path (fst x)) \<longrightarrow> \<not> b)))"
proof -
  have c: "calls seed_meets_existing = []" "calls large_local_remote_absent = []"
    "calls dirty_update_rejected_blob_ok = []"
    by (simp_all add: seed_meets_existing_def large_local_remote_absent_def
        dirty_update_rejected_blob_ok_def loaded_def)
  have f1: "fst (fetchRemoteDbBuffer seed_meets_existing) = Inr None"
    by (simp add: seed_meets_existing_def fixture_defs fetchRemoteDbBuffer_def getRemoteSha_def
        io_defs api_defs Let_def)
  have f2: "fst (fetchRemoteDbBuffer large_local_remote_absent) = Inr None"
    by (simp add: large_local_remote_absent_def fixture_defs fetchRemoteDbBuffer_def
        getRemoteSha_def io_defs api_defs Let_def)
  have l1: "localFile seed_meets_existing = Some ''ABC''" "length ''ABC'' \<le> SIZE_WARN_LIMIT"
    by (simp_all add: seed_meets_existing_def loaded_def SIZE_WARN_LIMIT_def)
  have l2: "localFile large_local_remote_absent = Some (replicate 94371841 (CHR ''a''))"
    "SIZE_WARN_LIMIT < length (replicate 94371841 (CHR ''a''))"
    "replicate 94371841 (CHR ''a'') \<noteq> []"
    by (simp_all add: large_local_remote_absent_def loaded_def SIZE_WARN_LIMIT_def)
  from push_routing [of seed_meets_existing False] f1 l1
  have a: "(\<exists>b rest. filter (is_write \<circ> fst)
        (issued seed_meets_existing (snd (initDataSync seed_meets_existing))) =
      (CreateOrUpdateFileContents
         \<lparr>p_message = ''Initialize data/app.db from local'', p_content = Base64 ''ABC'',
           p_sha = None\<rparr>, b) # rest) \<and>
     list_all (\<lambda>x. \<not> is_blob_path (fst x))
       (issued seed_meets_existing (snd (initDataSync seed_meets_existing)))"
    by (simp add: list_all_iff)
  from push_routing [of large_local_remote_absent False] f2 l2
  have b: "(\<exists>b rest. filter (is_write \<circ> fst)
        (issued large_local_remote_absent (snd (initDataSync large_local_remote_absent))) =
      (CreateBlob (Base64 (replicate 94371841 (CHR ''a''))), b) # rest) \<and>
     list_all (\<lambda>x. \<not> is_contents_put (fst x))
       (issued large_local_remote_absent (snd (initDataSync large_local_remote_absent)))"
    by (simp add: list_all_iff)
  from push_routing [of dirty_update_rejected_blob_ok False]
  have d: "filter (is_write \<circ> fst) (issued dirty_update_rejected_blob_ok
        (snd (syncNow False dirty_update_rejected_blob_ok))) = [] \<or>
    (\<exists>p b rest. filter (is_write \<circ> fst) (issued dirty_update_rejected_blob_ok
        (snd (syncNow False dirty_update_rejected_blob_ok))) =
         (CreateOrUpdateFileContents p, b) # rest \<and>
       ((\<exists>x \<in> set rest. is_blob_path (fst x)) \<longrightarrow> \<not> b))"
    by blast
  from a b d f1 f2 l2 c show ?thesis
    by (simp add: issued_def)
qed

section \<open>The push\<close>

text \<open>
  C5, as stated, fails. The tag the flush supplied is stale and the store rejects the
  update with status 409. The store would return a tag on a second fetch and would accept
  a retried update, but the flush does neither: the rejection is not the one it looks
  for, so it goes on to the blob path and sends five write requests.
\<close>

theorem stale_tag_409_is_not_retried:
  "syncNow_begin False dirty_stale_409 = Some ''ABC123'' \<and>
   getContent_replies dirty_stale_409 0 = Inr (File (Some ''s1'')) \<and>
   put_replies dirty_stale_409 0 = Inl (http_error 409 ''data/app.db does not match s1'') \<and>
   getContent_replies dirty_stale_409 1 = Inr (File (Some ''s2'')) \<and>
   put_replies dirty_stale_409 1 = Inr (Some ''s3'') \<and>
   fst (syncNow False dirty_stale_409) = Inr () \<and>
   calls (snd (syncNow False dirty_stale_409)) =
     [(GetContent, True),
      (CreateOrUpdateFileContents
         \<lparr>p_message = ''Sync data/app.db'', p_content = Base64 ''ABC123'', p_sha = Some ''s1''\<rparr>,
       False),
      (CreateBlob (Base64 ''ABC123''), True), (GetRef, True), (GetCommit ''c0'', True),
      (CreateTree ''t0'' ''b1'', True), (CreateCommit ''Sync data/app.db'' ''t1'' ''c0'', True),
      (UpdateRef ''c1'', True), (GetContent, True)] \<and>
   length (filter (is_write \<circ> fst) (calls (snd (syncNow False dirty_stale_409)))) = 5"
  by (simp add: dirty_stale_409_def fixture_defs syncNow_def syncNow_begin_def
      syncNow_rest_def sync_update_def blob_commit_def commitRawBlob_def putFileContents_def
      getRemoteSha_def set_lastKnownSha_def set_dirty_def put_done_eq
      io_defs api_defs or_null_def truthy_def Let_def)

text \<open>
  C5, amended. A flush that gets past the dirty check and finds the local file, whose
  version-tag fetch returns a tag and whose conditional update is rejected. When the
  rejection has status 422 and a message that contains \<^verbatim>\<open>"sha" wasn't supplied\<close>,
  the second fetch returns a tag and the retried update is fulfilled: exactly two write
  requests are sent, the call returns normally, \<^verbatim>\<open>lastKnownSha\<close> is the returned tag
  and \<^verbatim>\<open>dirty\<close> is false. Any other rejection is followed by no fetch and no retry:
  the next request is the blob of the blob path.
\<close>

theorem conflict_retry:
  assumes "syncNow_begin force s = Some buf"
    and "getContent_replies s 0 = Inr (File (Some sha0))" and "sha0 \<noteq> []"
    and "put_replies s 0 = Inl e"
  shows "(is_sha_missing e \<and>
          getContent_replies s 1 = Inr (File (Some sha1)) \<and> sha1 \<noteq> [] \<and>
          put_replies s 1 = Inr (Some t) \<and> t \<noteq> [] \<longrightarrow>
            fst (syncNow force s) = Inr () \<and>
            issued s (snd (syncNow force s)) =
              [(GetContent, True),
               (CreateOrUpdateFileContents
                  \<lparr>p_message = ''Sync data/app.db'', p_content = Base64 buf, p_sha = Some sha0\<rparr>,
                False),
               (GetContent, True),
               (CreateOrUpdateFileContents
                  \<lparr>p_message = ''Sync data/app.db'', p_content = Base64 buf, p_sha = Some sha1\<rparr>,
                True)] \<and>
            length (filter (is_write \<circ> fst) (issued s (snd (syncNow force s)))) = 2 \<and>
            lastKnownSha (snd (syncNow force s)) = Some t \<and>
            \<not> dirty (snd (syncNow force s))) \<and>
         (\<not> is_sha_missing e \<longrightarrow>
            take 3 (map fst (issued s (snd (syncNow force s)))) =
              [GetContent,
               CreateOrUpdateFileContents
                 \<lparr>p_message = ''Sync data/app.db'', p_content = Base64 buf, p_sha = Some sha0\<rparr>,
               CreateBlob (Base64 buf)])"
proof (intro conjI impI)
  assume "is_sha_missing e \<and>
          getContent_replies s 1 = Inr (File (Some sha1)) \<and> sha1 \<noteq> [] \<and>
          put_replies s 1 = Inr (Some t) \<and> t \<noteq> []"
  with assms have "fst (syncNow force s) = Inr () \<and>
            issued s (snd (syncNow force s)) =
              [(GetContent, True),
               (CreateOrUpdateFileContents
                  \<lparr>p_message = ''Sync data/app.db'', p_content = Base64 buf, p_sha = Some sha0\<rparr>,
                False),
               (GetContent, True),
               (CreateOrUpdateFileContents
                  \<lparr>p_message = ''Sync data/app.db'', p_content = Base64 buf, p_sha = Some sha1\<rparr>,
                True)] \<and>
            lastKnownSha (snd (syncNow force s)) = Some t \<and>
            \<not> dirty (snd (syncNow force s))"
    by (simp add: syncNow_def syncNow_rest_def sync_update_def put_done_def putFileContents_def
        getRemoteSha_def set_lastKnownSha_def set_dirty_def io_defs api_defs or_null_def
        truthy_def issued_def Let_def)
  then show "fst (syncNow force s) = Inr ()"
    and "issued s (snd (syncNow force s)) =
              [(GetContent, True),
               (CreateOrUpdateFileContents
                  \<lparr>p_message = ''Sync data/app.db'', p_content = Base64 buf, p_sha = Some sha0\<rparr>,
                False),
               (GetContent, True),
               (CreateOrUpdateFileContents
                  \<lparr>p_message = ''Sync data/app.db'', p_content = Base64 buf, p_sha = Some sha1\<rparr>,
                True)]"
    and "length (filter (is_write \<circ> fst) (issued s (snd (syncNow force s)))) = 2"
    and "lastKnownSha (snd (syncNow force s)) = Some t"
    and "\<not> dirty (snd (syncNow force s))"
    by simp_all
next
  assume n: "\<not> is_sha_missing e"
  define s0 where "s0 = s\<lparr>getContent_replies := (\<lambda>n. getContent_replies s (Suc n)),
       calls := calls s @ [(GetContent, True)]\<rparr>"
  define s1 where "s1 = s0\<lparr>put_replies := (\<lambda>n. put_replies s (Suc n)),
       calls := calls s0 @ [(CreateOrUpdateFileContents
          \<lparr>p_message = ''Sync data/app.db'', p_content = Base64 buf, p_sha = Some sha0\<rparr>, False)]\<rparr>"
  have "syncNow force s = blob_commit buf ''Sync data/app.db'' s1"
    using assms n
    by (simp add: syncNow_def syncNow_rest_def sync_update_def putFileContents_def
        getRemoteSha_def io_defs api_defs or_null_def truthy_def Let_def s0_def s1_def)
  moreover from blob_commit_outcome [of buf "''Sync data/app.db''" s1] obtain r2 s2 b2 rest2 where
    "blob_commit buf ''Sync data/app.db'' s1 = (r2, s2)"
    "calls s2 = calls s1 @ (CreateBlob (Base64 buf), b2) # rest2"
    by blast
  ultimately show "take 3 (map fst (issued s (snd (syncNow force s)))) =
              [GetContent,
               CreateOrUpdateFileContents
                 \<lparr>p_message = ''Sync data/app.db'', p_content = Base64 buf, p_sha = Some sha0\<rparr>,
               CreateBlob (Base64 buf)]"
    by (simp add: issued_def s0_def s1_def)
qed

theorem conflict_retry_witness:
  "is_sha_missing sha_missing_422 \<and>
   fst (syncNow False dirty_stale_then_ok) = Inr () \<and>
   length (filter (is_write \<circ> fst) (calls (snd (syncNow False dirty_stale_then_ok)))) = 2 \<and>
   lastKnownSha (snd (syncNow False dirty_stale_then_ok)) = Some ''s3'' \<and>
   \<not> dirty (snd (syncNow False dirty_stale_then_ok)) \<and>
   \<not> is_sha_missing (http_error 409 ''data/app.db does not match s1'') \<and>
   take 3 (map fst (calls (snd (syncNow False dirty_stale_409)))) =
     [GetContent,
      CreateOrUpdateFileContents
        \<lparr>p_message = ''Sync data/app.db'', p_content = Base64 ''ABC123'', p_sha = Some ''s1''\<rparr>,
      CreateBlob (Base64 ''ABC123'')]"
proof -
  have c: "calls dirty_stale_then_ok = []" "calls dirty_stale_409 = []"
    by (simp_all add: dirty_stale_then_ok_def dirty_stale_409_def loaded_def)
  have m: "is_sha_missing sha_missing_422"
    by (simp add: fixture_defs)
  have n: "\<not> is_sha_missing (http_error 409 ''data/app.db does not match s1'')"
    by (simp add: is_sha_missing_def http_error_def)
  have a: "fst (syncNow False dirty_stale_then_ok) = Inr () \<and>
        length (filter (is_write \<circ> fst)
          (issued dirty_stale_then_ok (snd (syncNow False dirty_stale_then_ok)))) = 2 \<and>
        lastKnownSha (snd (syncNow False dirty_stale_then_ok)) = Some ''s3'' \<and>
        \<not> dirty (snd (syncNow False dirty_stale_then_ok))"
    using conflict_retry [of False dirty_stale_then_ok "''ABC123''" "''s1''" sha_missing_422
        "''s2''" "''s3''"] m
    by (simp add: dirty_stale_then_ok_def loaded_def replies_from_def syncNow_begin_def)
  have b: "take 3 (map fst (issued dirty_stale_409 (snd (syncNow False dirty_stale_409)))) =
     [GetContent,
      CreateOrUpdateFileContents
        \<lparr>p_message = ''Sync data/app.db'', p_content = Base64 ''ABC123'', p_sha = Some ''s1''\<rparr>,
      CreateBlob (Base64 ''ABC123'')]"
    using conflict_retry [of False dirty_stale_409 "''ABC123''" "''s1''"
        "http_error 409 ''data/app.db does not match s1''"] n
    by (simp add: dirty_stale_409_def loaded_def replies_from_def syncNow_begin_def)
  from a b m n show ?thesis by (simp add: issued_def c)
qed

section \<open>The dirty flag\<close>

text \<open>
  C6, as stated, fails, in both directions. With the local file empty and the remote file
  absent, a flush clears \<^verbatim>\<open>dirty\<close> although nothing was pushed. And with the update
  rejected and the blob path fulfilled up to the move of the branch, the version-tag
  fetch that follows fails and the flush throws: the push is confirmed, nothing has been
  signalled since, and \<^verbatim>\<open>dirty\<close> is still set.
\<close>

theorem dirty_does_not_follow_confirmed_pushes:
  "dirty dirty_empty_local_remote_absent \<and>
   \<not> dirty (snd (syncNow False dirty_empty_local_remote_absent)) \<and>
   calls (snd (syncNow False dirty_empty_local_remote_absent)) = [(GetContent, False)] \<and>
   calls (snd (syncNow False dirty_blob_ok_fetch_fails)) =
     [(GetContent, True),
      (CreateOrUpdateFileContents
         \<lparr>p_message = ''Sync data/app.db'', p_content = Base64 ''ABC'', p_sha = Some ''s1''\<rparr>,
       False),
      (CreateBlob (Base64 ''ABC''), True), (GetRef, True), (GetCommit ''c0'', True),
      (CreateTree ''t0'' ''b1'', True), (CreateCommit ''Sync data/app.db'' ''t1'' ''c0'', True),
      (UpdateRef ''c1'', True), (GetContent, False)] \<and>
   fst (syncNow False dirty_blob_ok_fetch_fails) = Inl (http_error 500 ''Server Error'') \<and>
   dirty (snd (syncNow False dirty_blob_ok_fetch_fails))"
  by (simp add: dirty_empty_local_remote_absent_def dirty_blob_ok_fetch_fails_def fixture_defs
      syncNow_def syncNow_begin_def syncNow_rest_def sync_create_def sync_update_def
      blob_commit_def commitRawBlob_def putFileContents_def getRemoteSha_def set_dirty_def
      set_lastKnownSha_def io_defs api_defs or_null_def truthy_def Let_def)

text \<open>
  C6, amended. Across every sequence of events, in any interleaving, from a start with
  \<^verbatim>\<open>dirty\<close> false: \<^verbatim>\<open>dirty\<close> is true if and only if \<^verbatim>\<open>markDataDirty\<close> has been
  called since the last push that returned normally. The part of \<^verbatim>\<open>syncNow\<close> after
  the dirty check and the read of the local file leaves \<^verbatim>\<open>dirty\<close> as it was when it
  throws and clears it when it returns normally; it returns normally only after a
  fulfilled push request or after it found the remote file absent and the buffer empty
  and refused to push; and it does return normally whenever a contents request was
  fulfilled. A call of \<^verbatim>\<open>syncNow\<close> that stops at the dirty check or finds no local
  file changes nothing, \<^verbatim>\<open>initDataSync\<close> leaves \<^verbatim>\<open>dirty\<close> as it is, and
  \<^verbatim>\<open>markDataDirty\<close> sets it.
\<close>

theorem dirty_iff_signalled_since_settled:
  assumes "\<not> dirty (core e)"
  shows "dirty (core (run e evs)) = signalled_since_settled e evs \<and>
         dirty (snd (syncNow_rest buf s)) = (dirty s \<and> fst (syncNow_rest buf s) \<noteq> Inr ()) \<and>
         (fst (syncNow_rest buf s) = Inr () \<longrightarrow>
            (\<exists>c \<in> set (issued s (snd (syncNow_rest buf s))). is_push (fst c) \<and> snd c) \<or>
            (buf = [] \<and> fst (getRemoteSha s) = Inr None)) \<and>
         ((\<exists>c \<in> set (issued s (snd (syncNow_rest buf s))). is_contents_put (fst c) \<and> snd c) \<longrightarrow>
            fst (syncNow_rest buf s) = Inr ()) \<and>
         (syncNow_begin force s = None \<longrightarrow> syncNow force s = (Inr (), s)) \<and>
         (syncNow_begin force s = Some buf \<longrightarrow> syncNow force s = syncNow_rest buf s) \<and>
         dirty (snd (initDataSync s)) = dirty s \<and>
         dirty (markDataDirty s)"
proof (intro conjI)
  from assms show "dirty (core (run e evs)) = signalled_since_settled e evs"
    unfolding signalled_since_settled_def by (intro run_dirty) simp
  show "dirty (snd (syncNow_rest buf s)) = (dirty s \<and> fst (syncNow_rest buf s) \<noteq> Inr ())"
    by (rule syncNow_rest_dirty)
  show "fst (syncNow_rest buf s) = Inr () \<longrightarrow>
            (\<exists>c \<in> set (issued s (snd (syncNow_rest buf s))). is_push (fst c) \<and> snd c) \<or>
            (buf = [] \<and> fst (getRemoteSha s) = Inr None)"
    by (rule syncNow_rest_settled)
  show "(\<exists>c \<in> set (issued s (snd (syncNow_rest buf s))). is_contents_put (fst c) \<and> snd c) \<longrightarrow>
            fst (syncNow_rest buf s) = Inr ()"
    by (rule syncNow_rest_contents_fulfilled)
  show "syncNow_begin force s = None \<longrightarrow> syncNow force s = (Inr (), s)"
    by (simp add: syncNow_skips)
  show "syncNow_begin force s = Some buf \<longrightarrow> syncNow force s = syncNow_rest buf s"
    by (simp add: syncNow_runs)
  from init_outcome [of s] show "dirty (snd (initDataSync s)) = dirty s"
    by auto
  show "dirty (markDataDirty s)"
    by (simp add: markDataDirty_def Let_def)
qed

theorem dirty_iff_signalled_since_settled_witness:
  "\<not> dirty (core idle_local_ABC_remote_s1) \<and>
   signalled_since_settled idle_local_ABC_remote_s1 [MarkDirty, TimerFires] \<and>
   dirty (core (run idle_local_ABC_remote_s1 [MarkDirty, TimerFires])) \<and>
   \<not> signalled_since_settled idle_local_ABC_remote_s1 [MarkDirty, TimerFires, Resume 0] \<and>
   \<not> dirty (core (run idle_local_ABC_remote_s1 [MarkDirty, TimerFires, Resume 0])) \<and>
   signalled_since_settled idle_local_ABC_remote_s1 [MarkDirty, TimerFires, Resume 0, MarkDirty] \<and>
   dirty (core (run idle_local_ABC_remote_s1 [MarkDirty, TimerFires, Resume 0, MarkDirty])) \<and>
   fst (syncNow_rest ''ABC'' (core idle_local_ABC_remote_s1)) = Inr () \<and>
   ((\<exists>c \<in> set (issued (core idle_local_ABC_remote_s1)
        (snd (syncNow_rest ''ABC'' (core idle_local_ABC_remote_s1)))). is_push (fst c) \<and> snd c) \<or>
    (''ABC'' = [] \<and> fst (getRemoteSha (core idle_local_ABC_remote_s1)) = Inr None))"
proof -
  have d: "\<not> dirty (core idle_local_ABC_remote_s1)"
    by (simp add: idle_local_ABC_remote_s1_def loaded_def)
  have r: "fst (syncNow_rest ''ABC'' (core idle_local_ABC_remote_s1)) = Inr ()"
    by (simp add: idle_local_ABC_remote_s1_def fixture_defs syncNow_rest_def sync_update_def
        putFileContents_def getRemoteSha_def put_done_eq io_defs api_defs or_null_def
        truthy_def Let_def)
  have s1: "signalled_since_settled idle_local_ABC_remote_s1 [MarkDirty, TimerFires]"
    by (simp add: signalled_since_settled_def)
  have s2: "\<not> signalled_since_settled idle_local_ABC_remote_s1 [MarkDirty, TimerFires, Resume 0]"
    by (simp add: signalled_since_settled_def idle_local_ABC_remote_s1_def fixture_defs
        markDataDirty_def start_push_def syncNow_begin_def syncNow_rest_def sync_update_def
        putFileContents_def getRemoteSha_def put_done_eq io_defs api_defs or_null_def
        truthy_def Let_def)
  have s3: "signalled_since_settled idle_local_ABC_remote_s1
      [MarkDirty, TimerFires, Resume 0, MarkDirty]"
    by (simp add: signalled_since_settled_def)
  from dirty_iff_signalled_since_settled [OF d, of "[MarkDirty, TimerFires]"] s1
  have a: "dirty (core (run idle_local_ABC_remote_s1 [MarkDirty, TimerFires]))"
    by blast
  from dirty_iff_signalled_since_settled [OF d, of "[MarkDirty, TimerFires, Resume 0]"] s2
  have b: "\<not> dirty (core (run idle_local_ABC_remote_s1 [MarkDirty, TimerFires, Resume 0]))"
    by blast
  from dirty_iff_signalled_since_settled [OF d, of "[MarkDirty, TimerFires, Resume 0, MarkDirty]"] s3
  have c: "dirty (core (run idle_local_ABC_remote_s1 [MarkDirty, TimerFires, Resume 0, MarkDirty]))"
    by blast
  from dirty_iff_signalled_since_settled [OF d, of "[]" "''ABC''" "core idle_local_ABC_remote_s1"] r
  have p: "(\<exists>c \<in> set (issued (core idle_local_ABC_remote_s1)
        (snd (syncNow_rest ''ABC'' (core idle_local_ABC_remote_s1)))). is_push (fst c) \<and> snd c) \<or>
    (''ABC'' = [] \<and> fst (getRemoteSha (core idle_local_ABC_remote_s1)) = Inr None)"
    by blast
  from d s1 a s2 b s3 c r p show ?thesis by blast
qed

section \<open>Failures of the read at start-up\<close>

text \<open>
  C7. The remote path is a directory: \<^verbatim>\<open>getRemoteSha\<close> throws a plain error, which has
  no status. \<^verbatim>\<open>initDataSync\<close> does not let it through: it goes on as if the remote
  file were missing, creates the empty local file and returns normally.
\<close>

theorem init_absorbs_error_without_status:
  "fst (getRemoteSha remote_is_directory) =
     Inl (Error ''Expected file, found directory at data/app.db'') \<and>
   fst (fetchRemoteDbBuffer remote_is_directory) =
     Inl (Error ''Expected file, found directory at data/app.db'') \<and>
   status (Error ''Expected file, found directory at data/app.db'') \<noteq> Some 404 \<and>
   fst (initDataSync remote_is_directory) = Inr () \<and>
   localFile (snd (initDataSync remote_is_directory)) = Some []"
  by (simp add: remote_is_directory_def loaded_def replies_from_def fetchRemoteDbBuffer_def
      getRemoteSha_def initDataSync_def writeFileSync_def io_defs api_defs Error_def)

section \<open>Debounce\<close>

text \<open>
  C8, as stated, fails. The timer callback clears \<^verbatim>\<open>timer\<close> as soon as it has called
  \<^verbatim>\<open>syncNow\<close>, without waiting for it: while that push is on its way, the next
  \<^verbatim>\<open>markDataDirty\<close> starts a new timer. And a burst does not always produce a push:
  when a direct flush has cleared \<^verbatim>\<open>dirty\<close> before the timer of the burst fires,
  the call of \<^verbatim>\<open>syncNow\<close> made by the timer returns at once.
\<close>

theorem timer_started_while_push_in_flight:
  "inflight (run idle_local_ABC [MarkDirty, TimerFires]) = [''ABC''] \<and>
   timeouts (core (run idle_local_ABC [MarkDirty, TimerFires])) = 0 \<and>
   inflight (run idle_local_ABC [MarkDirty, TimerFires, MarkDirty]) = [''ABC''] \<and>
   timeouts (core (run idle_local_ABC [MarkDirty, TimerFires, MarkDirty])) = 1 \<and>
   timeouts (core (run idle_local_ABC_remote_s1 [MarkDirty, FlushNow False, Resume 0])) = 1 \<and>
   inflight (run idle_local_ABC_remote_s1 [MarkDirty, FlushNow False, Resume 0]) = [] \<and>
   inflight (run idle_local_ABC_remote_s1 [MarkDirty, FlushNow False, Resume 0, TimerFires]) = []"
  by (simp add: run_def idle_local_ABC_def idle_local_ABC_remote_s1_def fixture_defs
      markDataDirty_def start_push_def syncNow_begin_def syncNow_rest_def sync_update_def
      putFileContents_def getRemoteSha_def put_done_eq io_defs api_defs or_null_def
      truthy_def Let_def)

text \<open>
  C8, amended. Take any run of events that begins with no timer pending, holds at least one
  call of \<^verbatim>\<open>markDataDirty\<close> and no firing of the timer; periodic flushes, direct
  calls of \<^verbatim>\<open>syncNow\<close>, the signal handler and the ends of pushes may come in between.
  Exactly one timer has been started by its end. When that timer fires it calls
  \<^verbatim>\<open>syncNow\<close> once: one push starts if \<^verbatim>\<open>dirty\<close> is set and the local file exists
  at that moment, and none otherwise; no timer is pending afterwards, so it does not fire
  a second time. A call of \<^verbatim>\<open>markDataDirty\<close> made while a timer is pending starts
  none; one made while no timer is pending starts one, whether or not a push is on its way.
\<close>

theorem debounce_coalescing:
  assumes "timeouts (core e) = 0" and "\<not> timer (core e)"
    and "MarkDirty \<in> set evs" and "TimerFires \<notin> set evs"
  shows "timeouts (core (run e evs)) = 1 \<and>
         timer (core (run e evs)) \<and>
         inflight (run e (evs @ [TimerFires])) =
           (if dirty (core (run e evs))
            then case localFile (core (run e evs)) of
                   None \<Rightarrow> inflight (run e evs)
                 | Some buf \<Rightarrow> inflight (run e evs) @ [buf]
            else inflight (run e evs)) \<and>
         timeouts (core (run e (evs @ [TimerFires]))) = 0 \<and>
         \<not> timer (core (run e (evs @ [TimerFires]))) \<and>
         run e (evs @ [TimerFires, TimerFires]) = run e (evs @ [TimerFires]) \<and>
         (\<forall>e'. timer (core e') \<longrightarrow>
            timeouts (core (step e' MarkDirty)) = timeouts (core e') \<and>
            timer (core (step e' MarkDirty))) \<and>
         (\<forall>e'. \<not> timer (core e') \<longrightarrow>
            timeouts (core (step e' MarkDirty)) = Suc (timeouts (core e')) \<and>
            timer (core (step e' MarkDirty)))"
proof -
  from run_window [OF assms(4), of e] assms(1-3)
  have w: "timeouts (core (run e evs)) = 1" "timer (core (run e evs))"
    by simp_all
  have fire: "run e (evs @ [TimerFires]) = step (run e evs) TimerFires"
    by (simp add: run_append run_Cons run_Nil)
  have fire2: "run e (evs @ [TimerFires, TimerFires]) =
      step (step (run e evs) TimerFires) TimerFires"
    by (simp add: run_append run_Cons run_Nil)
  have a: "inflight (step (run e evs) TimerFires) =
           (if dirty (core (run e evs))
            then case localFile (core (run e evs)) of
                   None \<Rightarrow> inflight (run e evs)
                 | Some buf \<Rightarrow> inflight (run e evs) @ [buf]
            else inflight (run e evs))"
    using w by (simp add: start_push_def syncNow_begin_def Let_def split: option.splits)
  have b: "timeouts (core (step (run e evs) TimerFires)) = 0"
    "\<not> timer (core (step (run e evs) TimerFires))"
    using w by (simp_all add: start_push_def Let_def split: option.splits)
  have c: "step (step (run e evs) TimerFires) TimerFires = step (run e evs) TimerFires"
    using b by simp
  have d: "\<forall>e'. timer (core e') \<longrightarrow>
            timeouts (core (step e' MarkDirty)) = timeouts (core e') \<and>
            timer (core (step e' MarkDirty))"
    "\<forall>e'. \<not> timer (core e') \<longrightarrow>
            timeouts (core (step e' MarkDirty)) = Suc (timeouts (core e')) \<and>
            timer (core (step e' MarkDirty))"
    by (simp_all add: markDataDirty_def Let_def)
  from w a b c d show ?thesis
    unfolding fire fire2 by blast
qed

theorem debounce_coalescing_witness:
  "timeouts (core (run idle_local_ABC [MarkDirty, MarkDirty, FlushNow False, MarkDirty])) = 1 \<and>
   dirty (core (run idle_local_ABC [MarkDirty, MarkDirty, FlushNow False, MarkDirty])) \<and>
   inflight (run idle_local_ABC ([MarkDirty, MarkDirty, FlushNow False, MarkDirty] @ [TimerFires])) =
     inflight (run idle_local_ABC [MarkDirty, MarkDirty, FlushNow False, MarkDirty]) @ [''ABC''] \<and>
   timeouts (core (run idle_local_ABC
     ([MarkDirty, MarkDirty, FlushNow False, MarkDirty] @ [TimerFires]))) = 0 \<and>
   timeouts (core (run idle_local_ABC_remote_s1 [MarkDirty, FlushNow False, Resume 0])) = 1 \<and>
   \<not> dirty (core (run idle_local_ABC_remote_s1 [MarkDirty, FlushNow False, Resume 0])) \<and>
   inflight (run idle_local_ABC_remote_s1 ([MarkDirty, FlushNow False, Resume 0] @ [TimerFires])) =
     inflight (run idle_local_ABC_remote_s1 [MarkDirty, FlushNow False, Resume 0])"
proof -
  have a: "timeouts (core idle_local_ABC) = 0" "\<not> timer (core idle_local_ABC)"
    "timeouts (core idle_local_ABC_remote_s1) = 0" "\<not> timer (core idle_local_ABC_remote_s1)"
    by (simp_all add: idle_local_ABC_def idle_local_ABC_remote_s1_def loaded_def)
  have d1: "dirty (core (run idle_local_ABC [MarkDirty, MarkDirty, FlushNow False, MarkDirty]))"
    and l1: "localFile (core (run idle_local_ABC
      [MarkDirty, MarkDirty, FlushNow False, MarkDirty])) = Some ''ABC''"
    by (simp_all add: run_def idle_local_ABC_def loaded_def markDataDirty_def start_push_def
        syncNow_begin_def Let_def)
  have d2: "\<not> dirty (core (run idle_local_ABC_remote_s1 [MarkDirty, FlushNow False, Resume 0]))"
    by (simp add: run_def idle_local_ABC_remote_s1_def fixture_defs
      markDataDirty_def start_push_def syncNow_begin_def syncNow_rest_def sync_update_def
      putFileContents_def getRemoteSha_def put_done_eq io_defs api_defs or_null_def
      truthy_def Let_def)
  from debounce_coalescing [OF a(1,2), of "[MarkDirty, MarkDirty, FlushNow False, MarkDirty]"] d1 l1
  have x: "timeouts (core (run idle_local_ABC [MarkDirty, MarkDirty, FlushNow False, MarkDirty])) = 1 \<and>
   inflight (run idle_local_ABC ([MarkDirty, MarkDirty, FlushNow False, MarkDirty] @ [TimerFires])) =
     inflight (run idle_local_ABC [MarkDirty, MarkDirty, FlushNow False, MarkDirty]) @ [''ABC''] \<and>
   timeouts (core (run idle_local_ABC
     ([MarkDirty, MarkDirty, FlushNow False, MarkDirty] @ [TimerFires]))) = 0"
    by simp
  from debounce_coalescing [OF a(3,4), of "[MarkDirty, FlushNow False, Resume 0]"] d2
  have y: "timeouts (core (run idle_local_ABC_remote_s1 [MarkDirty, FlushNow False, Resume 0])) = 1 \<and>
   inflight (run idle_local_ABC_remote_s1 ([MarkDirty, FlushNow False, Resume 0] @ [TimerFires])) =
     inflight (run idle_local_ABC_remote_s1 [MarkDirty, FlushNow False, Resume 0])"
    by simp
  from x y d1 d2 show ?thesis by blast
qed

section \<open>Pushes in flight\<close>

text \<open>
  C9, as stated, fails: nothing in \<^verbatim>\<open>syncNow\<close> looks whether a push is on its way.
  After start-up, a change is signalled and the timer fires: the push waits for the store.
  The periodic flush comes next, finds \<^verbatim>\<open>dirty\<close> still set, and starts a second push.
\<close>

theorem two_pushes_in_flight:
  "intervalOn (core booted) \<and>
   inflight (run booted [MarkDirty, TimerFires]) = [''XYZ''] \<and>
   inflight (run booted [MarkDirty, TimerFires, Tick]) = [''XYZ'', ''XYZ'']"
  by (simp add: run_def booted_def remote_XYZ_local_ABC_def loaded_def replies_from_def
      initDataSync_def fetchRemoteDbBuffer_def getRemoteSha_def writeFileSync_def
      set_lastKnownSha_def io_defs api_defs or_null_def Let_def
      markDataDirty_def start_push_def syncNow_begin_def)

text \<open>
  C9, amended. In every interleaving of the events, at most one debounce timer is pending
  at a time. Pushes are not kept apart: one event starts at most one push, and a call of
  \<^verbatim>\<open>syncNow\<close> that passes the dirty check and finds the local file starts a push
  whatever is already on its way.
\<close>

theorem one_timer_many_pushes:
  assumes "timeouts (core e) = (if timer (core e) then 1 else 0)"
  shows "timeouts (core (run e evs)) = (if timer (core (run e evs)) then 1 else 0) \<and>
         timeouts (core (run e evs)) \<le> 1 \<and>
         length (inflight (step (run e evs) ev)) \<le> Suc (length (inflight (run e evs))) \<and>
         (\<forall>force buf. syncNow_begin force (core (run e evs)) = Some buf \<longrightarrow>
            inflight (step (run e evs) (FlushNow force)) = inflight (run e evs) @ [buf])"
proof -
  from assms have "one_timer e"
    by (simp add: one_timer_def)
  then have "one_timer (run e evs)"
    by (rule run_one_timer)
  then have t: "timeouts (core (run e evs)) = (if timer (core (run e evs)) then 1 else 0)"
    by (simp add: one_timer_def)
  then have "timeouts (core (run e evs)) \<le> 1"
    by simp
  with t step_starts_at_most_one [of "run e evs" ev] show ?thesis
    by (simp add: start_push_def)
qed

theorem one_timer_many_pushes_witness:
  "timeouts (core idle_local_ABC) = (if timer (core idle_local_ABC) then 1 else 0) \<and>
   timeouts (core (run idle_local_ABC [MarkDirty, TimerFires, MarkDirty, FlushNow False])) \<le> 1 \<and>
   syncNow_begin False (core (run idle_local_ABC [MarkDirty, TimerFires, MarkDirty, FlushNow False]))
     = Some ''ABC'' \<and>
   inflight (run idle_local_ABC [MarkDirty, TimerFires, MarkDirty, FlushNow False, FlushNow False]) =
     inflight (run idle_local_ABC [MarkDirty, TimerFires, MarkDirty, FlushNow False]) @ [''ABC'']"
proof -
  have a: "timeouts (core idle_local_ABC) = (if timer (core idle_local_ABC) then 1 else 0)"
    by (simp add: idle_local_ABC_def loaded_def)
  have b: "syncNow_begin False
      (core (run idle_local_ABC [MarkDirty, TimerFires, MarkDirty, FlushNow False])) = Some ''ABC''"
    by (simp add: run_def idle_local_ABC_def loaded_def markDataDirty_def start_push_def
        syncNow_begin_def Let_def)
  have c: "run idle_local_ABC [MarkDirty, TimerFires, MarkDirty, FlushNow False, FlushNow False] =
      step (run idle_local_ABC [MarkDirty, TimerFires, MarkDirty, FlushNow False]) (FlushNow False)"
    by (simp add: run_def)
  from one_timer_many_pushes [OF a,
      of "[MarkDirty, TimerFires, MarkDirty, FlushNow False]" "FlushNow False"] a b
  show ?thesis
    unfolding c by blast
qed

section \<open>The retry inside the helper\<close>

text \<open>
  C10. \<^verbatim>\<open>putFileContents\<close> retries by itself. When the store rejects its request
  with status 422 and the message that the tag was not supplied: a call made without a tag
  asks for the version tag, and when one comes back sends the request once more with it,
  so that the caller gets the answer to the second request. No call sends more than two
  contents requests. \<^verbatim>\<open>initDataSync\<close> creates the remote file through this
  helper, so the seed of a remote file that was not found gets the retry as well.
\<close>

theorem putFileContents_retries_once:
  assumes "put_replies s 0 = Inl e" and "is_sha_missing e"
  shows "(\<forall>t. getContent_replies s 0 = Inr (File (Some t)) \<and> t \<noteq> [] \<longrightarrow>
            fst (putFileContents c msg None s) = put_replies s 1 \<and>
            issued s (snd (putFileContents c msg None s)) =
              [(CreateOrUpdateFileContents \<lparr>p_message = msg, p_content = c, p_sha = None\<rparr>, False),
               (GetContent, True),
               (CreateOrUpdateFileContents \<lparr>p_message = msg, p_content = c, p_sha = Some t\<rparr>,
                fulfilled (put_replies s 1))]) \<and>
         length (filter (is_write \<circ> fst) (issued s (snd (putFileContents c msg sha s)))) \<le> 2 \<and>
         (\<forall>buf e0 t v. localFile s = Some buf \<and> 0 < length buf \<and> length buf \<le> SIZE_WARN_LIMIT \<and>
            getContent_replies s 0 = Inl e0 \<and> status e0 = Some 404 \<and>
            getContent_replies s 1 = Inr (File (Some t)) \<and> t \<noteq> [] \<and>
            put_replies s 1 = Inr v \<longrightarrow>
            fst (initDataSync s) = Inr () \<and>
            lastKnownSha (snd (initDataSync s)) = or_null v \<and>
            issued s (snd (initDataSync s)) =
              [(GetContent, False),
               (CreateOrUpdateFileContents
                  \<lparr>p_message = ''Initialize data/app.db from local'', p_content = Base64 buf,
                    p_sha = None\<rparr>, False),
               (GetContent, True),
               (CreateOrUpdateFileContents
                  \<lparr>p_message = ''Initialize data/app.db from local'', p_content = Base64 buf,
                    p_sha = Some t\<rparr>, True)])"
proof (intro conjI allI impI)
  fix t
  assume "getContent_replies s 0 = Inr (File (Some t)) \<and> t \<noteq> []"
  with assms show "fst (putFileContents c msg None s) = put_replies s 1"
    by (simp add: putFileContents_def getRemoteSha_def io_defs api_defs or_null_def truthy_def Let_def)
next
  fix t
  assume "getContent_replies s 0 = Inr (File (Some t)) \<and> t \<noteq> []"
  with assms show "issued s (snd (putFileContents c msg None s)) =
              [(CreateOrUpdateFileContents \<lparr>p_message = msg, p_content = c, p_sha = None\<rparr>, False),
               (GetContent, True),
               (CreateOrUpdateFileContents \<lparr>p_message = msg, p_content = c, p_sha = Some t\<rparr>,
                fulfilled (put_replies s 1))]"
    by (simp add: putFileContents_def getRemoteSha_def io_defs api_defs or_null_def truthy_def
        Let_def issued_def)
next
  show "length (filter (is_write \<circ> fst) (issued s (snd (putFileContents c msg sha s)))) \<le> 2"
    by (auto simp: putFileContents_def getRemoteSha_def io_defs api_defs Let_def issued_def
        split: sum.splits content_data.splits if_splits)
next
  fix buf e0 t v
  assume h: "localFile s = Some buf \<and> 0 < length buf \<and> length buf \<le> SIZE_WARN_LIMIT \<and>
            getContent_replies s 0 = Inl e0 \<and> status e0 = Some 404 \<and>
            getContent_replies s 1 = Inr (File (Some t)) \<and> t \<noteq> [] \<and>
            put_replies s 1 = Inr v"
  with assms have "fst (initDataSync s) = Inr () \<and>
      lastKnownSha (snd (initDataSync s)) = or_null v \<and>
      issued s (snd (initDataSync s)) =
              [(GetContent, False),
               (CreateOrUpdateFileContents
                  \<lparr>p_message = ''Initialize data/app.db from local'', p_content = Base64 buf,
                    p_sha = None\<rparr>, False),
               (GetContent, True),
               (CreateOrUpdateFileContents
                  \<lparr>p_message = ''Initialize data/app.db from local'', p_content = Base64 buf,
                    p_sha = Some t\<rparr>, True)]"
    by (simp add: initDataSync_def init_create_remote_def fetchRemoteDbBuffer_def
        getRemoteSha_def putFileContents_def set_lastKnownSha_def io_defs api_defs
        or_null_def truthy_def issued_def Let_def)
  then show "fst (initDataSync s) = Inr ()"
    and "lastKnownSha (snd (initDataSync s)) = or_null v"
    and "issued s (snd (initDataSync s)) =
              [(GetContent, False),
               (CreateOrUpdateFileContents
                  \<lparr>p_message = ''Initialize data/app.db from local'', p_content = Base64 buf,
                    p_sha = None\<rparr>, False),
               (GetContent, True),
               (CreateOrUpdateFileContents
                  \<lparr>p_message = ''Initialize data/app.db from local'', p_content = Base64 buf,
                    p_sha = Some t\<rparr>, True)]"
    by simp_all
qed

theorem putFileContents_retries_once_witness:
  "is_sha_missing sha_missing_422 \<and>
   fst (putFileContents (Base64 ''ABC'') ''m'' None create_meets_existing) = Inr (Some ''s2'') \<and>
   map fst (calls (snd (putFileContents (Base64 ''ABC'') ''m'' None create_meets_existing))) =
     [CreateOrUpdateFileContents \<lparr>p_message = ''m'', p_content = Base64 ''ABC'', p_sha = None\<rparr>,
      GetContent,
      CreateOrUpdateFileContents
        \<lparr>p_message = ''m'', p_content = Base64 ''ABC'', p_sha = Some ''s1''\<rparr>] \<and>
   fst (initDataSync seed_meets_existing) = Inr () \<and>
   lastKnownSha (snd (initDataSync seed_meets_existing)) = Some ''s2'' \<and>
   length (calls (snd (initDataSync seed_meets_existing))) = 4"
proof -
  have m: "is_sha_missing sha_missing_422"
    by (simp add: fixture_defs)
  have p1: "put_replies create_meets_existing 0 = Inl sha_missing_422"
    and p2: "put_replies seed_meets_existing 0 = Inl sha_missing_422"
    by (simp_all add: create_meets_existing_def seed_meets_existing_def loaded_def replies_from_def)
  have c: "calls create_meets_existing = []" "calls seed_meets_existing = []"
    by (simp_all add: create_meets_existing_def seed_meets_existing_def loaded_def)
  have a: "fst (putFileContents (Base64 ''ABC'') ''m'' None create_meets_existing) = Inr (Some ''s2'') \<and>
      map fst (issued create_meets_existing
        (snd (putFileContents (Base64 ''ABC'') ''m'' None create_meets_existing))) =
     [CreateOrUpdateFileContents \<lparr>p_message = ''m'', p_content = Base64 ''ABC'', p_sha = None\<rparr>,
      GetContent,
      CreateOrUpdateFileContents
        \<lparr>p_message = ''m'', p_content = Base64 ''ABC'', p_sha = Some ''s1''\<rparr>]"
    using putFileContents_retries_once [OF p1 m, of "Base64 ''ABC''" "''m''" None]
    by (simp add: create_meets_existing_def loaded_def replies_from_def)
  have b: "fst (initDataSync seed_meets_existing) = Inr () \<and>
   lastKnownSha (snd (initDataSync seed_meets_existing)) = Some ''s2'' \<and>
   length (issued seed_meets_existing (snd (initDataSync seed_meets_existing))) = 4"
    using putFileContents_retries_once [OF p2 m, of "Base64 ''ABC''" "''m''" None]
    by (simp add: seed_meets_existing_def loaded_def replies_from_def not_found_def
        http_error_def SIZE_WARN_LIMIT_def or_null_def)
  from a b m c show ?thesis by (simp add: issued_def)
qed

end
